theory Spec2Isabelle
  imports Complex_Main "HOL-Library.Sublist" "HOL-Library.AList" "HOL-Library.Multiset"
begin

section \<open>Python values\<close>

text \<open>
  A Python float is a double: \<open>Fin r\<close> is the finite double whose value is the real
  \<open>r\<close>, \<open>PInf\<close> and \<open>NInf\<close> are the infinities and \<open>NaN\<close> is not-a-number. Comparing
  and sorting doubles is exact and is defined below. Arithmetic on doubles rounds: it is
  computed here only where every operation involved is exact, and is otherwise what the
  float unit and numpy return, which are parameters of the model (\<open>float_unit\<close>).
  The sign of a zero is not modelled.
\<close>

datatype pyfloat = Fin real | PInf | NInf | NaN

text \<open>The exceptions the modelled code raises or lets through.\<close>

datatype error =
    IOError
  | FileNotFoundError
  | TypeError
  | AttributeError
  | ValueError
  | OverflowError
  | UnicodeDecodeError

text \<open>What \<open>json.loads\<close> produces; a dict keeps its keys in insertion order.\<close>

datatype jvalue =
    JNull
  | JBool bool
  | JInt int
  | JFloat pyfloat
  | JStr string
  | JList "jvalue list"
  | JDict "(string \<times> jvalue) list"

text \<open>What is printed on standard output and which files are opened.\<close>

datatype event = Open string | Print string

text \<open>The vector a filter reads and returns: a Python list of floats, or \<open>None\<close>.\<close>

datatype data = NoneVal | ListVal "pyfloat list"

text \<open>The types \<open>int\<close> and \<open>float\<close>, used as values of the user-parameter table, and
  a number of either type.\<close>

datatype ptype = PyInt | PyFloat

datatype pval = IntVal int | FloatVal pyfloat

subsection \<open>Arithmetic and comparison on floats\<close>

text \<open>
  What the model does not compute: the float that \<open>width * ratio / 2\<close> evaluates to (or
  the OverflowError of converting \<open>width\<close> to a float), the difference of two floats,
  and numpy's \<open>mean\<close> and \<open>median\<close> of a list of floats.
\<close>

record float_unit =
  unit_half :: "int \<Rightarrow> pval \<Rightarrow> error + pyfloat"
  unit_sub :: "pyfloat \<Rightarrow> pyfloat \<Rightarrow> pyfloat"
  numpy_mean :: "pyfloat list \<Rightarrow> pyfloat"
  numpy_median :: "pyfloat list \<Rightarrow> pyfloat"

text \<open>
  A real that is a multiple of \<open>2^-10\<close> and at most \<open>2^40\<close> in magnitude is a double (it
  is \<open>k / 2^10\<close> with \<open>k\<close> below \<open>2^53\<close>), so an operation whose exact result is such a
  real returns it unrounded. A list of at most 1024 such doubles, each at most \<open>2^30\<close> in
  magnitude, has only such reals as partial sums, in whatever order they are added.
\<close>

definition dyadic :: "real \<Rightarrow> bool" where
  "dyadic r = (real_of_int \<lfloor>r * 1024\<rfloor> = r * 1024)"

fun exact_elem :: "pyfloat \<Rightarrow> bool" where
  "exact_elem (Fin r) = (\<bar>r\<bar> \<le> 2 ^ 30 \<and> dyadic r)"
| "exact_elem _ = False"

definition exact_list :: "pyfloat list \<Rightarrow> bool" where
  "exact_list xs = (length xs \<le> 1024 \<and> list_all exact_elem xs)"

text \<open>\<open>x - y\<close> on floats.\<close>

fun fsub :: "float_unit \<Rightarrow> pyfloat \<Rightarrow> pyfloat \<Rightarrow> pyfloat" where
  "fsub F (Fin a) (Fin b) =
     (if exact_elem (Fin a) \<and> exact_elem (Fin b) then Fin (a - b)
      else unit_sub F (Fin a) (Fin b))"
| "fsub F x y = unit_sub F x y"

text \<open>
  The float of \<open>width * ratio / 2\<close>, for an int \<open>width\<close> and a \<open>ratio\<close> that is an int or
  a float. With an int ratio the product is an int and its half is exact up to \<open>2^53\<close>;
  with a float ratio that is a multiple of \<open>2^-10\<close> up to \<open>2^10\<close> and a width up to
  \<open>2^30\<close>, the conversion of the width, the product and its half are exact.
\<close>

definition width_ratio_half :: "float_unit \<Rightarrow> int \<Rightarrow> pval \<Rightarrow> error + pyfloat" where
  "width_ratio_half F w r =
     (case r of
        IntVal i \<Rightarrow>
          if \<bar>w * i\<bar> \<le> 2 ^ 53 then Inr (Fin (real_of_int (w * i) / 2))
          else unit_half F w r
      | FloatVal (Fin x) \<Rightarrow>
          if \<bar>w\<bar> \<le> 2 ^ 30 \<and> \<bar>x\<bar> \<le> 2 ^ 10 \<and> dyadic x then Inr (Fin (real_of_int w * x / 2))
          else unit_half F w r
      | FloatVal _ \<Rightarrow> unit_half F w r)"

text \<open>Python's \<open><\<close> on floats: false as soon as one side is NaN.\<close>

fun flt :: "pyfloat \<Rightarrow> pyfloat \<Rightarrow> bool" where
  "flt NaN y = False"
| "flt x NaN = False"
| "flt (Fin a) (Fin b) = (a < b)"
| "flt NInf NInf = False"
| "flt NInf y = True"
| "flt PInf y = False"
| "flt (Fin a) PInf = True"
| "flt (Fin a) NInf = False"

text \<open>\<open>int(x)\<close> on a float: truncation toward zero; ValueError on NaN and OverflowError
  on an infinity.\<close>

definition trunc :: "real \<Rightarrow> int" where
  "trunc r = (if 0 \<le> r then \<lfloor>r\<rfloor> else \<lceil>r\<rceil>)"

fun py_int :: "pyfloat \<Rightarrow> error + int" where
  "py_int (Fin r) = Inr (trunc r)"
| "py_int NaN = Inl ValueError"
| "py_int PInf = Inl OverflowError"
| "py_int NInf = Inl OverflowError"

text \<open>The finite members of a list, in order.\<close>

fun finites :: "pyfloat list \<Rightarrow> real list" where
  "finites [] = []"
| "finites (Fin r # xs) = r # finites xs"
| "finites (x # xs) = finites xs"

subsection \<open>Slices, \<open>range\<close>, \<open>min\<close>, \<open>str\<close> of an index\<close>

text \<open>
  \<open>xs[a:b]\<close>: a negative bound counts from the end, and both bounds are clamped to
  the list.
\<close>

definition clamp_index :: "int \<Rightarrow> int \<Rightarrow> int" where
  "clamp_index n a = (if a < 0 then max (a + n) 0 else min a n)"

definition py_slice :: "'a list \<Rightarrow> int \<Rightarrow> int \<Rightarrow> 'a list" where
  "py_slice xs a b =
     (let n = int (length xs); lo = clamp_index n a; hi = clamp_index n b
      in take (nat (hi - lo)) (drop (nat lo) xs))"

text \<open>\<open>range(n)\<close> for an integer \<open>n\<close>: empty when \<open>n \<le> 0\<close>.\<close>

definition py_range :: "int \<Rightarrow> int list" where
  "py_range n = map int [0..<nat n]"

text \<open>The builtin \<open>min\<close> on a non-empty list: the first element, replaced by each later
  one that compares smaller.\<close>

definition py_min :: "pyfloat list \<Rightarrow> pyfloat" where
  "py_min xs = foldl (\<lambda>m y. if flt y m then y else m) (hd xs) (tl xs)"

fun str_nat :: "nat \<Rightarrow> string" where
  "str_nat n =
     (if n < 10 then [''0123456789'' ! n]
      else str_nat (n div 10) @ [''0123456789'' ! (n mod 10)])"

declare str_nat.simps [simp del]

subsection \<open>numpy\<close>

text \<open>
  \<open>np.sort\<close>, \<open>np.mean\<close> and \<open>np.median\<close> as numpy documents them. \<open>np.sort\<close> is
  ascending with the NaNs last. The mean and the median of an empty array are NaN, as
  is either when a member is NaN. The mean of a list whose sums are exact is the exact
  sum divided by the length when that quotient is a double, and otherwise what numpy
  returns. The median of a list of odd length is the middle value of the sorted copy;
  for an even length it is the mean of the two middle values, computed when they add
  exactly and otherwise what numpy returns.
\<close>

definition np_sort :: "pyfloat list \<Rightarrow> pyfloat list" where
  "np_sort xs =
     filter (\<lambda>x. x = NInf) xs @ map Fin (sort (finites xs)) @ filter (\<lambda>x. x = PInf) xs
       @ filter (\<lambda>x. x = NaN) xs"

definition np_mean :: "float_unit \<Rightarrow> pyfloat list \<Rightarrow> pyfloat" where
  "np_mean F xs =
     (if xs = [] \<or> NaN \<in> set xs then NaN
      else if exact_list xs \<and> dyadic (sum_list (finites xs) / real (length xs))
      then Fin (sum_list (finites xs) / real (length xs))
      else numpy_mean F xs)"

definition np_median :: "float_unit \<Rightarrow> pyfloat list \<Rightarrow> pyfloat" where
  "np_median F xs =
     (if xs = [] \<or> NaN \<in> set xs then NaN
      else if odd (length xs) then np_sort xs ! (length xs div 2)
      else (case (np_sort xs ! (length xs div 2 - 1), np_sort xs ! (length xs div 2)) of
              (Fin a, Fin b) \<Rightarrow>
                if exact_elem (Fin a) \<and> exact_elem (Fin b) then Fin ((a + b) / 2)
                else numpy_median F xs
            | _ \<Rightarrow> numpy_median F xs))"

section \<open>JsonParser.py\<close>

record JsonParser =
  logs :: "jvalue list"
  filename :: "string option"

text \<open>
  The constructor and \<open>parse_file\<close>. \<open>loads\<close> is \<open>json.loads\<close> (\<open>None\<close> when it
  raises). \<open>fs\<close> is the file system: \<open>None\<close> when \<open>open\<close> raises, and otherwise the
  lines that iterating the file yields, followed by the exception that the iteration
  raises after them (a line that cannot be decoded, a read that fails) or by \<open>None\<close> when
  the file ends. The loop appends each parsed line and prints a message with the index
  of each line that does not parse; the loop header is under no \<open>try\<close>, so an exception
  of the iteration leaves \<open>parse_file\<close>.
\<close>

fun parse_lines ::
  "(string \<Rightarrow> jvalue option) \<Rightarrow> nat \<Rightarrow> string list \<Rightarrow> jvalue list \<Rightarrow> jvalue list \<times> event list"
where
  "parse_lines loads idx [] lg = (lg, [])"
| "parse_lines loads idx (line # rest) lg =
     (case loads line of
        Some v \<Rightarrow> parse_lines loads (Suc idx) rest (lg @ [v])
      | None \<Rightarrow>
          (let (lg', out) = parse_lines loads (Suc idx) rest lg
           in (lg', Print (''Line '' @ str_nat idx @
                 '' is not properly formatted and will be ignored'') # out)))"

definition parse_file ::
  "(string \<Rightarrow> jvalue option) \<Rightarrow> (string \<Rightarrow> (string list \<times> error option) option) \<Rightarrow> JsonParser
     \<Rightarrow> string \<Rightarrow> (error + JsonParser) \<times> event list"
where
  "parse_file loads fs p path =
     (case fs path of
        None \<Rightarrow> (Inl FileNotFoundError, [Open path])
      | Some (lines, stop) \<Rightarrow>
          (let (lg, out) = parse_lines loads 0 lines (logs p)
           in case stop of
                None \<Rightarrow> (Inr (p\<lparr>logs := lg\<rparr>), Open path # out)
              | Some e \<Rightarrow> (Inl e, Open path # out)))"

definition JsonParser_init ::
  "(string \<Rightarrow> jvalue option) \<Rightarrow> (string \<Rightarrow> (string list \<times> error option) option) \<Rightarrow> string option
     \<Rightarrow> (error + JsonParser) \<times> event list"
where
  "JsonParser_init loads fs fname =
     (let p = \<lparr>logs = [], filename = fname\<rparr>
      in case fname of
           None \<Rightarrow> (Inr p, [])
         | Some path \<Rightarrow>
             if path = [] then (Inr p, [])
             else if \<not> suffix ''.json'' path then (Inl IOError, [])
             else parse_file loads fs p path)"

definition parse_line :: "(string \<Rightarrow> jvalue option) \<Rightarrow> JsonParser \<Rightarrow> string \<Rightarrow> JsonParser" where
  "parse_line loads p line =
     (if prefix ''{'' line then
        (case loads line of
           Some v \<Rightarrow> p\<lparr>logs := logs p @ [v]\<rparr>
         | None \<Rightarrow> p)
      else p)"

text \<open>
  \<open>topic in log\<close> followed by \<open>log[topic]\<close>: \<open>None\<close> when the topic is absent, the
  value when \<open>log\<close> is a dict that has it. On a list or a string the membership test
  succeeds or fails and the subscript then raises; on any other value the membership
  test raises.
\<close>

fun lookup_topic :: "jvalue \<Rightarrow> string \<Rightarrow> error + jvalue option" where
  "lookup_topic (JDict kv) topic = Inr (map_of kv topic)"
| "lookup_topic (JList vs) topic =
     (if JStr topic \<in> set vs then Inl TypeError else Inr None)"
| "lookup_topic (JStr s) topic =
     (if sublist topic s then Inl TypeError else Inr None)"
| "lookup_topic _ topic = Inl TypeError"

text \<open>
  \<open>get_topic_values\<close>. \<open>to_float\<close> is the builtin \<open>float\<close> (\<open>None\<close> when it raises)
  and \<open>to_str\<close> the builtin \<open>str\<close>. The result is the list \<open>values\<close> (or the
  exception that leaves the loop) and what was printed.
\<close>

fun get_topic_values_loop ::
  "(jvalue \<Rightarrow> pyfloat option) \<Rightarrow> (jvalue \<Rightarrow> string) \<Rightarrow> jvalue list \<Rightarrow> string \<Rightarrow> bool
     \<Rightarrow> jvalue list \<Rightarrow> (error + jvalue list) \<times> event list"
where
  "get_topic_values_loop to_float to_str [] topic numeral' values = (Inr values, [])"
| "get_topic_values_loop to_float to_str (log' # rest) topic numeral' values =
     (case lookup_topic log' topic of
        Inl e \<Rightarrow> (Inl e, [])
      | Inr None \<Rightarrow> get_topic_values_loop to_float to_str rest topic numeral' values
      | Inr (Some v) \<Rightarrow>
          if numeral' then
            (case to_float v of
               Some x \<Rightarrow>
                 get_topic_values_loop to_float to_str rest topic numeral' (values @ [JFloat x])
             | None \<Rightarrow>
                 (let (r, out) = get_topic_values_loop to_float to_str rest topic numeral' values
                  in (r, Print (to_str v @ ''cannot be safely casted to a float'') # out)))
          else get_topic_values_loop to_float to_str rest topic numeral' values)"

definition get_topic_values ::
  "(jvalue \<Rightarrow> pyfloat option) \<Rightarrow> (jvalue \<Rightarrow> string) \<Rightarrow> JsonParser \<Rightarrow> string \<Rightarrow> bool
     \<Rightarrow> (error + jvalue list) \<times> event list"
where
  "get_topic_values to_float to_str p topic numeral' =
     get_topic_values_loop to_float to_str (logs p) topic numeral' []"

section \<open>filters.py\<close>

text \<open>
  The attributes of a filter object: \<open>_userParams\<close> and \<open>input\<close> on every concrete
  filter, and \<open>width\<close>, \<open>ratio\<close> and \<open>cutExtrema\<close> on a MovingMedian or MovingAverage.
  \<open>width\<close> is an integer and \<open>ratio\<close> a number, as the table of user parameters
  declares them. \<open>ratio\<close> holds the value of the number: an int ratio is recorded as the
  float of the same value, since only \<open>ratio == 1\<close> reads it.
\<close>

record Filter =
  userParams :: "(string \<times> ptype) list"
  input :: data

record MovingMedian = Filter +
  width :: int
  ratio :: pyfloat
  cutExtrema :: int

datatype filter =
    MovingMedianF MovingMedian
  | MovingAverageF MovingMedian
  | MedianCenteringF Filter
  | MeanCenteringF Filter
  | MinCenteringF Filter

definition DEFAULT_WIDTH :: int where
  "DEFAULT_WIDTH = 21"

definition DEFAULT_ELIMINATION_RATIO :: pval where
  "DEFAULT_ELIMINATION_RATIO = IntVal 1"

text \<open>
  \<open>hasattr(self, name)\<close>: the instance attributes, the attributes the classes of
  filters.py define, and those every Python object inherits, given by \<open>inherited\<close>.
\<close>

definition class_attrs :: "string list" where
  "class_attrs = [''__init__'', ''name'', ''getAvailableFilters'', ''userParams'', ''apply'']"

definition hasattr_Filter :: "(string \<Rightarrow> bool) \<Rightarrow> string \<Rightarrow> bool" where
  "hasattr_Filter inherited name =
     (name \<in> set [''_userParams'', ''input''] \<or> name \<in> set class_attrs \<or> inherited name)"

definition hasattr_MovingMedian :: "(string \<Rightarrow> bool) \<Rightarrow> string \<Rightarrow> bool" where
  "hasattr_MovingMedian inherited name =
     (name \<in> set [''_userParams'', ''input'', ''width'', ''ratio'', ''cutExtrema'']
      \<or> name \<in> set class_attrs \<or> inherited name)"

fun hasattr :: "(string \<Rightarrow> bool) \<Rightarrow> filter \<Rightarrow> string \<Rightarrow> bool" where
  "hasattr inherited (MovingMedianF m) name = hasattr_MovingMedian inherited name"
| "hasattr inherited (MovingAverageF m) name = hasattr_MovingMedian inherited name"
| "hasattr inherited (MedianCenteringF c) name = hasattr_Filter inherited name"
| "hasattr inherited (MeanCenteringF c) name = hasattr_Filter inherited name"
| "hasattr inherited (MinCenteringF c) name = hasattr_Filter inherited name"

text \<open>
  The setter of \<open>userParams\<close>: for each key of \<open>params\<close>, in order, the entry is
  stored in \<open>_userParams\<close> when the object has an attribute of that name. \<open>has\<close> is
  \<open>hasattr\<close> on the object; the loop changes no attribute but the dict.
\<close>

definition userParams_setter ::
  "(string \<Rightarrow> bool) \<Rightarrow> 'a Filter_scheme \<Rightarrow> (string \<times> ptype) list \<Rightarrow> 'a Filter_scheme"
where
  "userParams_setter has f params =
     foldl (\<lambda>g (param, t).
              if has param then g\<lparr>userParams := AList.update param t (userParams g)\<rparr> else g)
       f params"

fun set_userParams :: "(string \<Rightarrow> bool) \<Rightarrow> filter \<Rightarrow> (string \<times> ptype) list \<Rightarrow> filter" where
  "set_userParams inh (MovingMedianF m) ps =
     MovingMedianF (userParams_setter (hasattr_MovingMedian inh) m ps)"
| "set_userParams inh (MovingAverageF m) ps =
     MovingAverageF (userParams_setter (hasattr_MovingMedian inh) m ps)"
| "set_userParams inh (MedianCenteringF c) ps =
     MedianCenteringF (userParams_setter (hasattr_Filter inh) c ps)"
| "set_userParams inh (MeanCenteringF c) ps =
     MeanCenteringF (userParams_setter (hasattr_Filter inh) c ps)"
| "set_userParams inh (MinCenteringF c) ps =
     MinCenteringF (userParams_setter (hasattr_Filter inh) c ps)"

text \<open>The value of a number, as a float.\<close>

fun number_value :: "pval \<Rightarrow> pyfloat" where
  "number_value (IntVal i) = Fin (real_of_int i)"
| "number_value (FloatVal x) = x"

text \<open>The constructors. \<open>cutExtrema\<close> is \<open>int(self.width * self.ratio / 2)\<close>.\<close>

definition MovingMedian_init ::
  "float_unit \<Rightarrow> (string \<Rightarrow> bool) \<Rightarrow> data \<Rightarrow> int \<Rightarrow> pval \<Rightarrow> error + MovingMedian"
where
  "MovingMedian_init F inh inputData w r =
     (case width_ratio_half F w r of
        Inl e \<Rightarrow> Inl e
      | Inr v \<Rightarrow>
          (case py_int v of
             Inl e \<Rightarrow> Inl e
           | Inr c \<Rightarrow>
               Inr (userParams_setter (hasattr_MovingMedian inh)
                      \<lparr>userParams = [], input = inputData, width = w, ratio = number_value r,
                       cutExtrema = c\<rparr>
                      [(''width'', PyInt), (''ratio'', PyFloat)])))"

definition MovingAverage_init ::
  "float_unit \<Rightarrow> (string \<Rightarrow> bool) \<Rightarrow> data \<Rightarrow> int \<Rightarrow> error + MovingMedian"
where
  "MovingAverage_init F inh inputData w = MovingMedian_init F inh inputData w (IntVal 0)"

definition Centering_init :: "data \<Rightarrow> Filter" where
  "Centering_init inputData = \<lparr>userParams = [], input = inputData\<rparr>"

text \<open>\<open>MovingMedian.apply\<close>, which MovingAverage inherits.\<close>

definition MovingMedian_apply :: "float_unit \<Rightarrow> MovingMedian \<Rightarrow> error + data" where
  "MovingMedian_apply F f =
     (case input f of
        NoneVal \<Rightarrow> Inl TypeError
      | ListVal xs \<Rightarrow>
          if int (length xs) < width f then Inr (ListVal xs)
          else if ratio f = Fin 1 then
            Inr (ListVal (map (\<lambda>i. np_median F (py_slice xs i (i + width f)))
                            (py_range (int (length xs) - width f))))
          else
            Inr (ListVal (map (\<lambda>i. let currentBlock = np_sort (py_slice xs i (i + width f))
                                   in if cutExtrema f > 0
                                      then np_mean F (py_slice currentBlock (cutExtrema f) (- cutExtrema f))
                                      else np_mean F currentBlock)
                            (py_range (int (length xs) - width f)))))"

text \<open>The three centering filters; a falsy input (\<open>None\<close> or the empty list) falls
  through the \<open>if\<close> and the method returns \<open>None\<close>.\<close>

definition truthy :: "data \<Rightarrow> bool" where
  "truthy d = (case d of NoneVal \<Rightarrow> False | ListVal xs \<Rightarrow> xs \<noteq> [])"

definition MedianCentering_apply :: "float_unit \<Rightarrow> Filter \<Rightarrow> error + data" where
  "MedianCentering_apply F f =
     (case input f of
        NoneVal \<Rightarrow> Inr NoneVal
      | ListVal xs \<Rightarrow>
          if truthy (ListVal xs)
          then (let median = np_median F xs in Inr (ListVal (map (\<lambda>x. fsub F x median) xs)))
          else Inr NoneVal)"

definition MeanCentering_apply :: "float_unit \<Rightarrow> Filter \<Rightarrow> error + data" where
  "MeanCentering_apply F f =
     (case input f of
        NoneVal \<Rightarrow> Inr NoneVal
      | ListVal xs \<Rightarrow>
          if truthy (ListVal xs)
          then (let mean = np_mean F xs in Inr (ListVal (map (\<lambda>x. fsub F x mean) xs)))
          else Inr NoneVal)"

definition MinCentering_apply :: "float_unit \<Rightarrow> Filter \<Rightarrow> error + data" where
  "MinCentering_apply F f =
     (case input f of
        NoneVal \<Rightarrow> Inr NoneVal
      | ListVal xs \<Rightarrow>
          if truthy (ListVal xs)
          then (let mean = py_min xs in Inr (ListVal (map (\<lambda>x. fsub F x mean) xs)))
          else Inr NoneVal)"

fun filter_apply :: "float_unit \<Rightarrow> filter \<Rightarrow> error + data" where
  "filter_apply F (MovingMedianF m) = MovingMedian_apply F m"
| "filter_apply F (MovingAverageF m) = MovingMedian_apply F m"
| "filter_apply F (MedianCenteringF c) = MedianCentering_apply F c"
| "filter_apply F (MeanCenteringF c) = MeanCentering_apply F c"
| "filter_apply F (MinCenteringF c) = MinCentering_apply F c"

section \<open>plotter.py\<close>

text \<open>\<open>f.input = outputData\<close>.\<close>

fun set_input :: "filter \<Rightarrow> data \<Rightarrow> filter" where
  "set_input (MovingMedianF m) d = MovingMedianF (m\<lparr>input := d\<rparr>)"
| "set_input (MovingAverageF m) d = MovingAverageF (m\<lparr>input := d\<rparr>)"
| "set_input (MedianCenteringF c) d = MedianCenteringF (c\<lparr>input := d\<rparr>)"
| "set_input (MeanCenteringF c) d = MeanCenteringF (c\<lparr>input := d\<rparr>)"
| "set_input (MinCenteringF c) d = MinCenteringF (c\<lparr>input := d\<rparr>)"

fun get_input :: "filter \<Rightarrow> data" where
  "get_input (MovingMedianF m) = input m"
| "get_input (MovingAverageF m) = input m"
| "get_input (MedianCenteringF c) = input c"
| "get_input (MeanCenteringF c) = input c"
| "get_input (MinCenteringF c) = input c"

fun get_userParams :: "filter \<Rightarrow> (string \<times> ptype) list" where
  "get_userParams (MovingMedianF m) = userParams m"
| "get_userParams (MovingAverageF m) = userParams m"
| "get_userParams (MedianCenteringF c) = userParams c"
| "get_userParams (MeanCenteringF c) = userParams c"
| "get_userParams (MinCenteringF c) = userParams c"

text \<open>
  \<open>FiltersModel.apply\<close>. The chain is the list of the \<open>filter\<close> attributes of the
  filter boxes, each a filter or still \<open>None\<close>; assigning \<open>input\<close> on \<open>None\<close>
  raises AttributeError. The result is the chain, with the inputs the loop assigned, and
  the returned data or the exception that left the loop.
\<close>

fun FiltersModel_apply ::
  "float_unit \<Rightarrow> filter option list \<Rightarrow> data \<Rightarrow> filter option list \<times> (error + data)"
where
  "FiltersModel_apply F [] outputData = ([], Inr outputData)"
| "FiltersModel_apply F (None # fs) outputData = (None # fs, Inl AttributeError)"
| "FiltersModel_apply F (Some f # fs) outputData =
     (let f' = set_input f outputData
      in case filter_apply F f' of
           Inl e \<Rightarrow> (Some f' # fs, Inl e)
         | Inr outputData' \<Rightarrow>
             (let (fs', r) = FiltersModel_apply F fs outputData' in (Some f' # fs', r)))"

text \<open>
  \<open>setattr(self.filterRef, param, val)\<close> for the attributes the table of user
  parameters names: \<open>width\<close> with an int and \<open>ratio\<close> with a float. Any other
  assignment is outside the attributes the records have, and is \<open>None\<close> here.
\<close>

definition setattr_MovingMedian :: "MovingMedian \<Rightarrow> string \<Rightarrow> pval \<Rightarrow> MovingMedian option" where
  "setattr_MovingMedian m name v =
     (if name = ''width'' then (case v of IntVal i \<Rightarrow> Some (m\<lparr>width := i\<rparr>) | FloatVal x \<Rightarrow> None)
      else if name = ''ratio'' then (case v of FloatVal x \<Rightarrow> Some (m\<lparr>ratio := x\<rparr>) | IntVal i \<Rightarrow> None)
      else None)"

fun setattr :: "filter \<Rightarrow> string \<Rightarrow> pval \<Rightarrow> filter option" where
  "setattr (MovingMedianF m) name v = map_option MovingMedianF (setattr_MovingMedian m name v)"
| "setattr (MovingAverageF m) name v = map_option MovingAverageF (setattr_MovingMedian m name v)"
| "setattr (MedianCenteringF c) name v = None"
| "setattr (MeanCenteringF c) name v = None"
| "setattr (MinCenteringF c) name v = None"

text \<open>\<open>outputType(valStr)\<close>, with the builtins \<open>int\<close> and \<open>float\<close> on a string given
  by \<open>to_int\<close> and \<open>to_flt\<close> (\<open>None\<close> when they raise).\<close>

fun convert ::
  "(string \<Rightarrow> int option) \<Rightarrow> (string \<Rightarrow> pyfloat option) \<Rightarrow> ptype \<Rightarrow> string \<Rightarrow> pval option"
where
  "convert to_int to_flt PyInt s = map_option IntVal (to_int s)"
| "convert to_int to_flt PyFloat s = map_option FloatVal (to_flt s)"

fun str_ptype :: "ptype \<Rightarrow> string" where
  "str_ptype PyInt = ''<class '' @ [CHR 0x27] @ ''int'' @ [CHR 0x27] @ ''>''"
| "str_ptype PyFloat = ''<class '' @ [CHR 0x27] @ ''float'' @ [CHR 0x27] @ ''>''"

text \<open>
  \<open>ParametersPopup.setParam\<close>. \<open>entries\<close> gives the text of each labelled entry. The
  result is the filter after the call and the alerts shown.
\<close>

definition setParam ::
  "(string \<Rightarrow> int option) \<Rightarrow> (string \<Rightarrow> pyfloat option) \<Rightarrow> (string \<times> string) list \<Rightarrow> filter
     \<Rightarrow> string \<Rightarrow> ptype \<Rightarrow> (filter \<times> string list) option"
where
  "setParam to_int to_flt entries filterRef param outputType =
     (case map_of entries param of
        None \<Rightarrow> Some (filterRef, [])
      | Some valStr \<Rightarrow>
          if valStr = [] then Some (filterRef, [])
          else (case convert to_int to_flt outputType valStr of
                  None \<Rightarrow>
                    Some (filterRef,
                      [''The following parameter is given in not correctly typed: '' @ param @
                       ''; expected: '' @ str_ptype outputType])
                | Some val \<Rightarrow> map_option (\<lambda>f. (f, [])) (setattr filterRef param val)))"

section \<open>Theorems\<close>

subsection \<open>Slices, ranges and numpy\<close>

lemma py_slice_window:
  assumes "0 \<le> a" and "0 \<le> w" and "a + w \<le> int (length xs)"
  shows "py_slice xs a (a + w) = take (nat w) (drop (nat a) xs)"
  using assms by (simp add: py_slice_def clamp_index_def Let_def)

lemma length_py_range: "length (py_range n) = nat n"
  by (simp add: py_range_def)

lemma nth_py_range: "i < nat n \<Longrightarrow> py_range n ! i = int i"
  by (simp add: py_range_def)

lemma finites_append: "finites (xs @ ys) = finites xs @ finites ys"
  by (induction xs rule: finites.induct) auto

lemma finites_map_Fin: "finites (map Fin rs) = rs"
  by (induction rs) auto

lemma finites_filter_not_Fin:
  "finites (filter (\<lambda>x. x = NInf) xs) = []"
  "finites (filter (\<lambda>x. x = PInf) xs) = []"
  "finites (filter (\<lambda>x. x = NaN) xs) = []"
  by (induction xs rule: finites.induct) auto

lemma finites_np_sort: "finites (np_sort xs) = sort (finites xs)"
  by (simp add: np_sort_def finites_append finites_map_Fin finites_filter_not_Fin)

lemma mset_np_sort: "mset (np_sort xs) = mset xs"
proof (induction xs)
  case Nil
  show ?case by (simp add: np_sort_def)
next
  case (Cons x xs)
  then show ?case by (cases x) (auto simp: np_sort_def)
qed

lemma length_np_sort: "length (np_sort xs) = length xs"
  using mset_np_sort [of xs] by (metis size_mset)

lemma set_np_sort: "set (np_sort xs) = set xs"
  using mset_np_sort [of xs] by (metis set_mset_mset)

lemma exact_list_np_sort: "exact_list (np_sort xs) = exact_list xs"
  by (simp add: exact_list_def length_np_sort list_all_iff set_np_sort)

lemma sum_list_sort: "sum_list (sort xs) = sum_list (xs::real list)"
  by (metis mset_sort sum_mset_sum_list)

lemma exact_list_no_NaN: "exact_list xs \<Longrightarrow> NaN \<notin> set xs"
  by (auto simp: exact_list_def list_all_iff)

lemma np_mean_exact:
  assumes "xs \<noteq> []" and "exact_list xs"
    and "dyadic (sum_list (finites xs) / real (length xs))"
  shows "np_mean F xs = Fin (sum_list (finites xs) / real (length xs))"
  using assms exact_list_no_NaN [of xs] by (simp add: np_mean_def)

lemma np_mean_np_sort_exact:
  assumes "xs \<noteq> []" and "exact_list xs"
    and "dyadic (sum_list (finites xs) / real (length xs))"
  shows "np_mean F (np_sort xs) = Fin (sum_list (finites xs) / real (length xs))"
proof -
  from assms(1) have ne: "np_sort xs \<noteq> []"
    using length_np_sort [of xs] by auto
  have "np_mean F (np_sort xs)
          = Fin (sum_list (finites (np_sort xs)) / real (length (np_sort xs)))"
    using ne assms(2,3)
    by (intro np_mean_exact) (simp_all add: exact_list_np_sort finites_np_sort sum_list_sort length_np_sort)
  then show ?thesis
    by (simp add: finites_np_sort sum_list_sort length_np_sort)
qed

subsection \<open>MovingMedian and MovingAverage\<close>

text \<open>
  C5. A MovingMedian of any ratio and any cutExtrema, given a list strictly shorter than
  its width, returns that list unchanged.
\<close>

theorem MovingMedian_apply_short:
  assumes "input f = ListVal xs" and "int (length xs) < width f"
  shows "MovingMedian_apply F f = Inr (ListVal xs)"
  using assms by (simp add: MovingMedian_apply_def)

theorem MovingMedian_apply_short_witness:
  "\<forall>F. MovingMedian_apply F
     \<lparr>userParams = [], input = ListVal [Fin 3, Fin 1], width = 3, ratio = Fin (1/2),
      cutExtrema = 0\<rparr>
   = Inr (ListVal [Fin 3, Fin 1])"
  using MovingMedian_apply_short
    [of "\<lparr>userParams = [], input = ListVal [Fin 3, Fin 1], width = 3, ratio = Fin (1/2),
          cutExtrema = 0\<rparr>" "[Fin 3, Fin 1]"]
  by simp

text \<open>
  C3. With ratio 1 and a list of length \<open>L \<ge> width\<close>, \<open>apply\<close> returns exactly
  \<open>L - width\<close> values (so never \<open>L - width + 1\<close>: no window starts at offset
  \<open>L - width\<close>), the \<open>i\<close>-th being \<open>np.median\<close> of the slice \<open>input[i : i + width]\<close>;
  for a positive width that slice is the \<open>width\<close> elements from offset \<open>i\<close>.
\<close>

theorem MovingMedian_apply_ratio_one:
  assumes "input f = ListVal xs" and "ratio f = Fin 1" and "width f \<le> int (length xs)"
  shows "\<exists>ys. MovingMedian_apply F f = Inr (ListVal ys)
           \<and> int (length ys) = int (length xs) - width f
           \<and> int (length ys) \<noteq> int (length xs) - width f + 1
           \<and> (\<forall>i<length ys. ys ! i = np_median F (py_slice xs (int i) (int i + width f)))
           \<and> (0 < width f \<longrightarrow>
                (\<forall>i<length ys. py_slice xs (int i) (int i + width f) = take (nat (width f)) (drop i xs)
                    \<and> int (length (take (nat (width f)) (drop i xs))) = width f))"
proof -
  let ?n = "int (length xs) - width f"
  let ?ys = "map (\<lambda>i. np_median F (py_slice xs i (i + width f))) (py_range ?n)"
  have app: "MovingMedian_apply F f = Inr (ListVal ?ys)"
    using assms by (simp add: MovingMedian_apply_def)
  have len: "length ?ys = nat ?n"
    by (simp add: length_py_range)
  have nth: "\<forall>i<length ?ys. ?ys ! i = np_median F (py_slice xs (int i) (int i + width f))"
    by (simp add: length_py_range nth_py_range)
  have win: "0 < width f \<longrightarrow>
      (\<forall>i<length ?ys. py_slice xs (int i) (int i + width f) = take (nat (width f)) (drop i xs)
          \<and> int (length (take (nat (width f)) (drop i xs))) = width f)"
  proof (intro impI allI)
    fix i assume w: "0 < width f" and i: "i < length ?ys"
    from i len have b: "int i + width f \<le> int (length xs)" by simp
    with w have "py_slice xs (int i) (int i + width f) = take (nat (width f)) (drop (nat (int i)) xs)"
      by (intro py_slice_window) simp_all
    moreover from b w have "int (length (take (nat (width f)) (drop i xs))) = width f"
      by simp
    ultimately show "py_slice xs (int i) (int i + width f) = take (nat (width f)) (drop i xs)
          \<and> int (length (take (nat (width f)) (drop i xs))) = width f"
      by simp
  qed
  from assms(3) len have "int (length ?ys) = ?n" by simp
  with app nth win show ?thesis by (intro exI [of _ ?ys]) simp
qed

theorem MovingMedian_apply_ratio_one_witness:
  "\<forall>F. \<exists>ys. MovingMedian_apply F
           \<lparr>userParams = [], input = ListVal [Fin 5, Fin 1, Fin 3, Fin 2, Fin 4], width = 3,
            ratio = Fin 1, cutExtrema = 1\<rparr> = Inr (ListVal ys)
        \<and> length ys = 2 \<and> ys ! 0 = Fin 3 \<and> ys ! 1 = Fin 2"
proof
  fix F
  let ?xs = "[Fin 5, Fin 1, Fin 3, Fin 2, Fin 4]"
  let ?f = "\<lparr>userParams = [], input = ListVal ?xs, width = 3, ratio = Fin 1, cutExtrema = 1\<rparr>"
  have h1: "input ?f = ListVal ?xs" by simp
  have h2: "ratio ?f = Fin 1" by simp
  have h3: "width ?f \<le> int (length ?xs)" by simp
  from MovingMedian_apply_ratio_one [OF h1 h2 h3, of F] obtain ys where
    a: "MovingMedian_apply F ?f = Inr (ListVal ys)"
    and l: "int (length ys) = int (length ?xs) - width ?f"
    and n: "\<forall>i<length ys. ys ! i = np_median F (py_slice ?xs (int i) (int i + width ?f))"
    by blast
  from l have l2: "length ys = 2" by simp
  have s0: "py_slice ?xs 0 3 = [Fin 5, Fin 1, Fin 3]"
    by (simp add: py_slice_def clamp_index_def)
  have s1: "py_slice ?xs 1 4 = [Fin 1, Fin 3, Fin 2]"
    by (simp add: py_slice_def clamp_index_def)
  have "ys ! 0 = np_median F (py_slice ?xs 0 3)"
    using n [rule_format, of 0] l2 by simp
  then have y0: "ys ! 0 = Fin 3"
    unfolding s0 by (simp add: np_median_def np_sort_def)
  have "ys ! 1 = np_median F (py_slice ?xs 1 4)"
    using n [rule_format, of 1] l2 by simp
  then have y1: "ys ! 1 = Fin 2"
    unfolding s1 by (simp add: np_median_def np_sort_def)
  from a l2 y0 y1 show "\<exists>ys. MovingMedian_apply F ?f = Inr (ListVal ys)
        \<and> length ys = 2 \<and> ys ! 0 = Fin 3 \<and> ys ! 1 = Fin 2"
    by blast
qed

lemma MovingMedian_init_IntVal:
  assumes "\<bar>w * i\<bar> \<le> 2 ^ 53"
  shows "MovingMedian_init F inh d w (IntVal i) =
     Inr \<lparr>userParams = [(''width'', PyInt), (''ratio'', PyFloat)], input = d, width = w,
          ratio = Fin (real_of_int i), cutExtrema = trunc (real_of_int (w * i) / 2)\<rparr>"
  using assms
  by (simp add: MovingMedian_init_def width_ratio_half_def userParams_setter_def
        hasattr_MovingMedian_def)

lemma MovingMedian_init_FloatVal:
  assumes "\<bar>w\<bar> \<le> 2 ^ 30" and "\<bar>x\<bar> \<le> 2 ^ 10" and "dyadic x"
  shows "MovingMedian_init F inh d w (FloatVal (Fin x)) =
     Inr \<lparr>userParams = [(''width'', PyInt), (''ratio'', PyFloat)], input = d, width = w,
          ratio = Fin x, cutExtrema = trunc (real_of_int w * x / 2)\<rparr>"
  using assms
  by (simp add: MovingMedian_init_def width_ratio_half_def userParams_setter_def
        hasattr_MovingMedian_def)

lemma MovingMedian_init_Inr:
  assumes "MovingMedian_init F inh d w r = Inr m"
  shows "\<exists>v. width_ratio_half F w r = Inr (Fin v)
           \<and> m = \<lparr>userParams = [(''width'', PyInt), (''ratio'', PyFloat)], input = d, width = w,
                  ratio = number_value r, cutExtrema = trunc v\<rparr>"
proof (cases "width_ratio_half F w r")
  case (Inl e)
  with assms show ?thesis by (simp add: MovingMedian_init_def)
next
  case (Inr y)
  with assms show ?thesis
    by (cases y)
       (auto simp: MovingMedian_init_def userParams_setter_def hasattr_MovingMedian_def)
qed

lemma MovingMedian_apply_mean:
  assumes inp: "input f = ListVal xs" and r: "ratio f \<noteq> Fin 1" and c: "cutExtrema f \<le> 0"
    and w: "width f \<le> int (length xs)"
  shows "MovingMedian_apply F f =
           Inr (ListVal (map (\<lambda>i. np_mean F (np_sort (py_slice xs i (i + width f))))
                           (py_range (int (length xs) - width f))))"
  using assms by (simp add: MovingMedian_apply_def)

lemma py_slice_trim:
  assumes "0 < c"
  shows "py_slice s c (- c) = take (length s - 2 * nat c) (drop (nat c) s)"
proof (cases "c \<le> int (length s)")
  case True
  with assms have "nat (int (length s) - c - c) = length s - 2 * nat c" by linarith
  with True assms show ?thesis
    by (simp add: py_slice_def clamp_index_def Let_def min_def max_def)
next
  case False
  with assms show ?thesis
    by (simp add: py_slice_def clamp_index_def Let_def min_def max_def)
qed

text \<open>
  C4. \<open>MovingAverage(inputData, width)\<close> is the object \<open>MovingMedian(inputData, width, 0)\<close>
  and applies as it does on every input. On a list of length \<open>L \<ge> width\<close> it returns
  \<open>L - width\<close> values, the \<open>i\<close>-th being \<open>np.mean\<close> of the sorted copy of the slice
  \<open>input[i : i + width]\<close>, which holds the elements of the slice, all of them. For a
  positive width that slice is the full window of \<open>width\<close> elements; where the sums of
  the window are exact and its mean is a double, the value is the sum of the window
  divided by \<open>width\<close>.
\<close>

theorem MovingAverage_is_MovingMedian_ratio_0:
  "\<exists>m. MovingAverage_init F inh d0 w = Inr m
       \<and> MovingMedian_init F inh d0 w (IntVal 0) = Inr m
       \<and> filter_apply F (set_input (MovingAverageF m) d)
           = filter_apply F (set_input (MovingMedianF m) d)
       \<and> (\<forall>xs. d = ListVal xs \<and> w \<le> int (length xs) \<longrightarrow>
            (\<exists>ys. filter_apply F (set_input (MovingAverageF m) d) = Inr (ListVal ys)
                \<and> int (length ys) = int (length xs) - w
                \<and> (\<forall>i<length ys.
                       ys ! i = np_mean F (np_sort (py_slice xs (int i) (int i + w)))
                     \<and> mset (np_sort (py_slice xs (int i) (int i + w)))
                         = mset (py_slice xs (int i) (int i + w)))
                \<and> (0 < w \<longrightarrow>
                     (\<forall>i<length ys.
                         py_slice xs (int i) (int i + w) = take (nat w) (drop i xs)
                       \<and> int (length (take (nat w) (drop i xs))) = w
                       \<and> (exact_list (take (nat w) (drop i xs))
                            \<and> dyadic (sum_list (finites (take (nat w) (drop i xs))) / real_of_int w)
                          \<longrightarrow> ys ! i
                                = Fin (sum_list (finites (take (nat w) (drop i xs))) / real_of_int w))))))"
proof -
  let ?m = "\<lparr>userParams = [(''width'', PyInt), (''ratio'', PyFloat)], input = d0, width = w,
             ratio = Fin 0, cutExtrema = 0\<rparr>"
  have init: "MovingMedian_init F inh d0 w (IntVal 0) = Inr ?m"
    using MovingMedian_init_IntVal [of w 0 F inh d0] by (simp add: trunc_def)
  have mean: "\<exists>ys. filter_apply F (set_input (MovingAverageF ?m) d) = Inr (ListVal ys)
                \<and> int (length ys) = int (length xs) - w
                \<and> (\<forall>i<length ys.
                       ys ! i = np_mean F (np_sort (py_slice xs (int i) (int i + w)))
                     \<and> mset (np_sort (py_slice xs (int i) (int i + w)))
                         = mset (py_slice xs (int i) (int i + w)))
                \<and> (0 < w \<longrightarrow>
                     (\<forall>i<length ys.
                         py_slice xs (int i) (int i + w) = take (nat w) (drop i xs)
                       \<and> int (length (take (nat w) (drop i xs))) = w
                       \<and> (exact_list (take (nat w) (drop i xs))
                            \<and> dyadic (sum_list (finites (take (nat w) (drop i xs))) / real_of_int w)
                          \<longrightarrow> ys ! i
                                = Fin (sum_list (finites (take (nat w) (drop i xs))) / real_of_int w))))"
    if d: "d = ListVal xs" and w: "w \<le> int (length xs)" for xs
  proof -
    let ?n = "int (length xs) - w"
    let ?ys = "map (\<lambda>i. np_mean F (np_sort (py_slice xs i (i + w)))) (py_range ?n)"
    have app: "filter_apply F (set_input (MovingAverageF ?m) d) = Inr (ListVal ?ys)"
      using MovingMedian_apply_mean [of "?m\<lparr>input := d\<rparr>" xs F] d w by simp
    have len: "length ?ys = nat ?n" by (simp add: length_py_range)
    have nth: "\<forall>i<length ?ys.
                   ?ys ! i = np_mean F (np_sort (py_slice xs (int i) (int i + w)))
                 \<and> mset (np_sort (py_slice xs (int i) (int i + w)))
                     = mset (py_slice xs (int i) (int i + w))"
      by (simp add: length_py_range nth_py_range mset_np_sort)
    have win: "py_slice xs (int i) (int i + w) = take (nat w) (drop i xs)
             \<and> int (length (take (nat w) (drop i xs))) = w
             \<and> (exact_list (take (nat w) (drop i xs))
                  \<and> dyadic (sum_list (finites (take (nat w) (drop i xs))) / real_of_int w)
                \<longrightarrow> ?ys ! i
                      = Fin (sum_list (finites (take (nat w) (drop i xs))) / real_of_int w))"
      if pos: "0 < w" and i: "i < length ?ys" for i
    proof -
      from i len have b: "int i + w \<le> int (length xs)" by simp
      with pos have sl: "py_slice xs (int i) (int i + w) = take (nat w) (drop i xs)"
        using py_slice_window [of "int i" w xs] by simp
      from b pos have ln: "int (length (take (nat w) (drop i xs))) = w" by simp
      have "?ys ! i = Fin (sum_list (finites (take (nat w) (drop i xs))) / real_of_int w)"
        if ex: "exact_list (take (nat w) (drop i xs))
                  \<and> dyadic (sum_list (finites (take (nat w) (drop i xs))) / real_of_int w)"
      proof -
        from ln pos have ne: "take (nat w) (drop i xs) \<noteq> []" by auto
        from ln have rl: "real (length (take (nat w) (drop i xs))) = real_of_int w"
          by (metis of_int_of_nat_eq)
        from ex rl have dy: "dyadic (sum_list (finites (take (nat w) (drop i xs)))
                                      / real (length (take (nat w) (drop i xs))))"
          by simp
        from np_mean_np_sort_exact [OF ne conjunct1 [OF ex] dy, of F] rl
        have "np_mean F (np_sort (take (nat w) (drop i xs)))
                = Fin (sum_list (finites (take (nat w) (drop i xs))) / real_of_int w)"
          by simp
        with nth i sl show ?thesis by simp
      qed
      with sl ln show ?thesis by blast
    qed
    from w len have "int (length ?ys) = ?n" by simp
    with app nth win show ?thesis by (intro exI [of _ ?ys]) blast
  qed
  have same: "filter_apply F (set_input (MovingAverageF ?m) d)
                = filter_apply F (set_input (MovingMedianF ?m) d)"
    by simp
  from init same mean show ?thesis
    unfolding MovingAverage_init_def by (intro exI [of _ ?m]) blast
qed

theorem MovingAverage_is_MovingMedian_ratio_0_witness:
  "\<forall>F. \<exists>m. MovingAverage_init F (\<lambda>n. False) NoneVal 2 = Inr m
      \<and> MovingMedian_init F (\<lambda>n. False) NoneVal 2 (IntVal 0) = Inr m
      \<and> filter_apply F (set_input (MovingAverageF m) (ListVal [Fin 1, Fin 3, Fin 5]))
          = Inr (ListVal [Fin 2])
      \<and> filter_apply F (set_input (MovingMedianF m) (ListVal [Fin 1, Fin 3, Fin 5]))
          = Inr (ListVal [Fin 2])"
proof
  fix F
  let ?xs = "[Fin 1, Fin 3, Fin 5]"
  from MovingAverage_is_MovingMedian_ratio_0 [of F "\<lambda>n. False" NoneVal 2 "ListVal ?xs"]
  obtain m where
    i1: "MovingAverage_init F (\<lambda>n. False) NoneVal 2 = Inr m"
    and i2: "MovingMedian_init F (\<lambda>n. False) NoneVal 2 (IntVal 0) = Inr m"
    and same: "filter_apply F (set_input (MovingAverageF m) (ListVal ?xs))
                 = filter_apply F (set_input (MovingMedianF m) (ListVal ?xs))"
    and mean: "\<forall>xs. ListVal ?xs = ListVal xs \<and> 2 \<le> int (length xs) \<longrightarrow>
            (\<exists>ys. filter_apply F (set_input (MovingAverageF m) (ListVal ?xs)) = Inr (ListVal ys)
                \<and> int (length ys) = int (length xs) - 2
                \<and> (\<forall>i<length ys.
                       ys ! i = np_mean F (np_sort (py_slice xs (int i) (int i + 2)))
                     \<and> mset (np_sort (py_slice xs (int i) (int i + 2)))
                         = mset (py_slice xs (int i) (int i + 2)))
                \<and> (0 < (2::int) \<longrightarrow>
                     (\<forall>i<length ys.
                         py_slice xs (int i) (int i + 2) = take (nat 2) (drop i xs)
                       \<and> int (length (take (nat 2) (drop i xs))) = 2
                       \<and> (exact_list (take (nat 2) (drop i xs))
                            \<and> dyadic (sum_list (finites (take (nat 2) (drop i xs))) / real_of_int 2)
                          \<longrightarrow> ys ! i
                                = Fin (sum_list (finites (take (nat 2) (drop i xs))) / real_of_int 2)))))"
    by blast
  have h: "ListVal ?xs = ListVal ?xs \<and> 2 \<le> int (length ?xs)" by simp
  from mean [rule_format, OF h] obtain ys where
    a: "filter_apply F (set_input (MovingAverageF m) (ListVal ?xs)) = Inr (ListVal ys)"
    and l: "int (length ys) = int (length ?xs) - 2"
    and e: "0 < (2::int) \<longrightarrow>
                     (\<forall>i<length ys.
                         py_slice ?xs (int i) (int i + 2) = take (nat 2) (drop i ?xs)
                       \<and> int (length (take (nat 2) (drop i ?xs))) = 2
                       \<and> (exact_list (take (nat 2) (drop i ?xs))
                            \<and> dyadic (sum_list (finites (take (nat 2) (drop i ?xs))) / real_of_int 2)
                          \<longrightarrow> ys ! i
                                = Fin (sum_list (finites (take (nat 2) (drop i ?xs))) / real_of_int 2)))"
    by blast
  from l have l1: "length ys = 1" by simp
  have win: "take (nat 2) (drop 0 ?xs) = [Fin 1, Fin 3]" by simp
  have ex: "exact_list [Fin 1, Fin 3] \<and> dyadic (sum_list (finites [Fin 1, Fin 3]) / real_of_int 2)"
    by (simp add: exact_list_def dyadic_def)
  have pos: "0 < (2::int)" by simp
  have z: "0 < length ys" using l1 by simp
  from e [rule_format, OF pos z]
  have "exact_list (take (nat 2) (drop 0 ?xs))
                    \<and> dyadic (sum_list (finites (take (nat 2) (drop 0 ?xs))) / real_of_int 2)
                  \<longrightarrow> ys ! 0 = Fin (sum_list (finites (take (nat 2) (drop 0 ?xs))) / real_of_int 2)"
    by (elim conjE)
  with ex have "ys ! 0 = Fin 2" unfolding win by simp
  with l1 have "ys = [Fin 2]" by (cases ys) auto
  with a same i1 i2 show "\<exists>m. MovingAverage_init F (\<lambda>n. False) NoneVal 2 = Inr m
      \<and> MovingMedian_init F (\<lambda>n. False) NoneVal 2 (IntVal 0) = Inr m
      \<and> filter_apply F (set_input (MovingAverageF m) (ListVal ?xs)) = Inr (ListVal [Fin 2])
      \<and> filter_apply F (set_input (MovingMedianF m) (ListVal ?xs)) = Inr (ListVal [Fin 2])"
    by auto
qed

subsection \<open>The derived field cutExtrema\<close>

text \<open>
  C2, as stated, fails twice. \<open>MovingMedian(None, 21, -0.5)\<close> has \<open>cutExtrema = -5\<close>,
  since \<open>int\<close> truncates toward zero, where the floor of \<open>21 * -0.5 / 2\<close> is \<open>-6\<close>. And
  after the user edits \<open>ratio\<close> to 0 on a default MovingMedian, \<open>setParam\<close> has assigned
  \<open>ratio\<close> only: \<open>cutExtrema\<close> is still 10, where the floor of \<open>21 * 0 / 2\<close> is 0.
\<close>

theorem cutExtrema_stale_or_truncated:
  "\<forall>F. MovingMedian_init F (\<lambda>n. False) NoneVal 21 (FloatVal (Fin (- 1 / 2)))
         = Inr \<lparr>userParams = [(''width'', PyInt), (''ratio'', PyFloat)], input = NoneVal,
                width = 21, ratio = Fin (- 1 / 2), cutExtrema = - 5\<rparr>
      \<and> \<lfloor>real_of_int 21 * (- 1 / 2) / 2\<rfloor> = (- 6 :: int)
      \<and> MovingMedian_init F (\<lambda>n. False) NoneVal DEFAULT_WIDTH DEFAULT_ELIMINATION_RATIO
         = Inr \<lparr>userParams = [(''width'', PyInt), (''ratio'', PyFloat)], input = NoneVal,
                width = 21, ratio = Fin 1, cutExtrema = 10\<rparr>
      \<and> setParam (\<lambda>s. None) (\<lambda>s. if s = ''0'' then Some (Fin 0) else None)
           [(''width'', ''''), (''ratio'', ''0'')]
           (MovingMedianF \<lparr>userParams = [(''width'', PyInt), (''ratio'', PyFloat)],
              input = NoneVal, width = 21, ratio = Fin 1, cutExtrema = 10\<rparr>) ''ratio'' PyFloat
         = Some (MovingMedianF \<lparr>userParams = [(''width'', PyInt), (''ratio'', PyFloat)],
              input = NoneVal, width = 21, ratio = Fin 0, cutExtrema = 10\<rparr>, [])
      \<and> \<lfloor>real_of_int 21 * 0 / 2\<rfloor> = (0 :: int)"
proof
  fix F
  have g: "\<bar>21 :: int\<bar> \<le> 2 ^ 30" "\<bar>- 1 / 2 :: real\<bar> \<le> 2 ^ 10" "dyadic (- 1 / 2)"
    by (simp_all add: dyadic_def)
  have a: "MovingMedian_init F (\<lambda>n. False) NoneVal 21 (FloatVal (Fin (- 1 / 2)))
         = Inr \<lparr>userParams = [(''width'', PyInt), (''ratio'', PyFloat)], input = NoneVal,
                width = 21, ratio = Fin (- 1 / 2), cutExtrema = - 5\<rparr>"
    using MovingMedian_init_FloatVal [OF g, of F "\<lambda>n. False" NoneVal]
    by (simp add: trunc_def)
  have b: "\<lfloor>real_of_int 21 * (- 1 / 2) / 2\<rfloor> = (- 6 :: int)" by simp
  have h: "\<bar>21 * 1 :: int\<bar> \<le> 2 ^ 53" by simp
  have c: "MovingMedian_init F (\<lambda>n. False) NoneVal DEFAULT_WIDTH DEFAULT_ELIMINATION_RATIO
         = Inr \<lparr>userParams = [(''width'', PyInt), (''ratio'', PyFloat)], input = NoneVal,
                width = 21, ratio = Fin 1, cutExtrema = 10\<rparr>"
    using MovingMedian_init_IntVal [OF h, of F "\<lambda>n. False" NoneVal]
    by (simp add: trunc_def DEFAULT_WIDTH_def DEFAULT_ELIMINATION_RATIO_def)
  have d: "setParam (\<lambda>s. None) (\<lambda>s. if s = ''0'' then Some (Fin 0) else None)
           [(''width'', ''''), (''ratio'', ''0'')]
           (MovingMedianF \<lparr>userParams = [(''width'', PyInt), (''ratio'', PyFloat)],
              input = NoneVal, width = 21, ratio = Fin 1, cutExtrema = 10\<rparr>) ''ratio'' PyFloat
         = Some (MovingMedianF \<lparr>userParams = [(''width'', PyInt), (''ratio'', PyFloat)],
              input = NoneVal, width = 21, ratio = Fin 0, cutExtrema = 10\<rparr>, [])"
    by (simp add: setParam_def setattr_MovingMedian_def)
  have e: "\<lfloor>real_of_int 21 * 0 / 2\<rfloor> = (0 :: int)" by simp
  from a b c d e
  show "MovingMedian_init F (\<lambda>n. False) NoneVal 21 (FloatVal (Fin (- 1 / 2)))
         = Inr \<lparr>userParams = [(''width'', PyInt), (''ratio'', PyFloat)], input = NoneVal,
                width = 21, ratio = Fin (- 1 / 2), cutExtrema = - 5\<rparr>
      \<and> \<lfloor>real_of_int 21 * (- 1 / 2) / 2\<rfloor> = (- 6 :: int)
      \<and> MovingMedian_init F (\<lambda>n. False) NoneVal DEFAULT_WIDTH DEFAULT_ELIMINATION_RATIO
         = Inr \<lparr>userParams = [(''width'', PyInt), (''ratio'', PyFloat)], input = NoneVal,
                width = 21, ratio = Fin 1, cutExtrema = 10\<rparr>
      \<and> setParam (\<lambda>s. None) (\<lambda>s. if s = ''0'' then Some (Fin 0) else None)
           [(''width'', ''''), (''ratio'', ''0'')]
           (MovingMedianF \<lparr>userParams = [(''width'', PyInt), (''ratio'', PyFloat)],
              input = NoneVal, width = 21, ratio = Fin 1, cutExtrema = 10\<rparr>) ''ratio'' PyFloat
         = Some (MovingMedianF \<lparr>userParams = [(''width'', PyInt), (''ratio'', PyFloat)],
              input = NoneVal, width = 21, ratio = Fin 0, cutExtrema = 10\<rparr>, [])
      \<and> \<lfloor>real_of_int 21 * 0 / 2\<rfloor> = (0 :: int)"
    by (intro conjI)
qed

text \<open>
  C2, amended. When the constructor returns an object, the expression
  \<open>width * ratio / 2\<close> has evaluated to a finite float, and \<open>cutExtrema\<close> is that float
  truncated toward zero, which is its floor when it is not negative. Where the float
  arithmetic is exact (an int ratio with \<open>width * ratio\<close> up to \<open>2^53\<close> in magnitude, or
  a width up to \<open>2^30\<close> and a float ratio that is a multiple of \<open>2^-10\<close> up to \<open>2^10\<close>)
  the constructor returns an object and that float is \<open>width * ratio / 2\<close>, so
  \<open>cutExtrema\<close> is the floor of \<open>width * ratio / 2\<close> when \<open>width * ratio\<close> is not
  negative. On a list of length at least \<open>width\<close>, with a ratio other than 1 and a
  positive \<open>cutExtrema\<close>, \<open>apply\<close> returns for each window \<open>np.mean\<close> of the sorted
  window without its first and last \<open>cutExtrema\<close> elements, \<open>cutExtrema\<close> being the
  value the object holds.
\<close>

theorem cutExtrema_at_construction:
  "(MovingMedian_init F inh d w r = Inr m \<longrightarrow>
      (\<exists>v. width_ratio_half F w r = Inr (Fin v)
          \<and> cutExtrema m = trunc v \<and> (0 \<le> v \<longrightarrow> cutExtrema m = \<lfloor>v\<rfloor>))
      \<and> width m = w \<and> ratio m = number_value r)
   \<and> (\<bar>w * i\<bar> \<le> 2 ^ 53 \<longrightarrow>
        (\<exists>m'. MovingMedian_init F inh d w (IntVal i) = Inr m'
            \<and> cutExtrema m' = trunc (real_of_int (w * i) / 2)
            \<and> (0 \<le> w * i \<longrightarrow> cutExtrema m' = \<lfloor>real_of_int (w * i) / 2\<rfloor>)))
   \<and> (\<bar>w\<bar> \<le> 2 ^ 30 \<and> \<bar>x\<bar> \<le> 2 ^ 10 \<and> dyadic x \<longrightarrow>
        (\<exists>m'. MovingMedian_init F inh d w (FloatVal (Fin x)) = Inr m'
            \<and> cutExtrema m' = trunc (real_of_int w * x / 2)
            \<and> (0 \<le> real_of_int w * x \<longrightarrow> cutExtrema m' = \<lfloor>real_of_int w * x / 2\<rfloor>)))
   \<and> (input f = ListVal xs \<and> width f \<le> int (length xs) \<and> ratio f \<noteq> Fin 1 \<and> 0 < cutExtrema f \<longrightarrow>
        MovingMedian_apply F f =
          Inr (ListVal (map (\<lambda>i. np_mean F
                                (take (length (np_sort (py_slice xs i (i + width f))) - 2 * nat (cutExtrema f))
                                   (drop (nat (cutExtrema f)) (np_sort (py_slice xs i (i + width f))))))
                          (py_range (int (length xs) - width f)))))"
proof (intro conjI impI)
  assume a: "MovingMedian_init F inh d w r = Inr m"
  from MovingMedian_init_Inr [OF a] obtain v where
    v: "width_ratio_half F w r = Inr (Fin v)"
    and m: "m = \<lparr>userParams = [(''width'', PyInt), (''ratio'', PyFloat)], input = d, width = w,
                  ratio = number_value r, cutExtrema = trunc v\<rparr>"
    by blast
  from m have "cutExtrema m = trunc v" by simp
  moreover from this have "0 \<le> v \<longrightarrow> cutExtrema m = \<lfloor>v\<rfloor>"
    by (simp add: trunc_def)
  ultimately show "\<exists>v. width_ratio_half F w r = Inr (Fin v)
          \<and> cutExtrema m = trunc v \<and> (0 \<le> v \<longrightarrow> cutExtrema m = \<lfloor>v\<rfloor>)"
    using v by blast
  from m show "width m = w" by simp
  from m show "ratio m = number_value r" by simp
next
  assume g: "\<bar>w * i\<bar> \<le> 2 ^ 53"
  have t: "0 \<le> w * i \<longrightarrow> trunc (real_of_int (w * i) / 2) = \<lfloor>real_of_int (w * i) / 2\<rfloor>"
    unfolding trunc_def by (simp del: of_int_mult)
  show "\<exists>m'. MovingMedian_init F inh d w (IntVal i) = Inr m'
            \<and> cutExtrema m' = trunc (real_of_int (w * i) / 2)
            \<and> (0 \<le> w * i \<longrightarrow> cutExtrema m' = \<lfloor>real_of_int (w * i) / 2\<rfloor>)"
    unfolding MovingMedian_init_IntVal [OF g] using t by (simp del: of_int_mult)
next
  assume g: "\<bar>w\<bar> \<le> 2 ^ 30 \<and> \<bar>x\<bar> \<le> 2 ^ 10 \<and> dyadic x"
  then have g1: "\<bar>w\<bar> \<le> 2 ^ 30" and g2: "\<bar>x\<bar> \<le> 2 ^ 10" and g3: "dyadic x"
    by simp_all
  show "\<exists>m'. MovingMedian_init F inh d w (FloatVal (Fin x)) = Inr m'
            \<and> cutExtrema m' = trunc (real_of_int w * x / 2)
            \<and> (0 \<le> real_of_int w * x \<longrightarrow> cutExtrema m' = \<lfloor>real_of_int w * x / 2\<rfloor>)"
    unfolding MovingMedian_init_FloatVal [OF g1 g2 g3] by (simp add: trunc_def)
next
  assume a: "input f = ListVal xs \<and> width f \<le> int (length xs) \<and> ratio f \<noteq> Fin 1 \<and> 0 < cutExtrema f"
  then have "py_slice s (cutExtrema f) (- cutExtrema f)
               = take (length s - 2 * nat (cutExtrema f)) (drop (nat (cutExtrema f)) s)"
    for s :: "pyfloat list"
    by (simp add: py_slice_trim)
  with a show "MovingMedian_apply F f =
          Inr (ListVal (map (\<lambda>i. np_mean F
                                (take (length (np_sort (py_slice xs i (i + width f))) - 2 * nat (cutExtrema f))
                                   (drop (nat (cutExtrema f)) (np_sort (py_slice xs i (i + width f))))))
                          (py_range (int (length xs) - width f))))"
    by (simp add: MovingMedian_apply_def Let_def)
qed

theorem cutExtrema_at_construction_witness:
  "\<forall>F. (\<exists>m. MovingMedian_init F (\<lambda>n. False) NoneVal 21 (IntVal 1) = Inr m \<and> cutExtrema m = 10)
      \<and> (\<exists>m. MovingMedian_init F (\<lambda>n. False) NoneVal 4 (FloatVal (Fin (1/2))) = Inr m
             \<and> cutExtrema m = 1)
      \<and> MovingMedian_apply F
          \<lparr>userParams = [], input = ListVal [Fin 5, Fin 1, Fin 4, Fin 2, Fin 3, Fin 9], width = 5,
           ratio = Fin (1/2), cutExtrema = 1\<rparr>
         = Inr (ListVal [Fin 3])"
proof
  fix F
  let ?xs = "[Fin 5, Fin 1, Fin 4, Fin 2, Fin 3, Fin 9]"
  let ?f = "\<lparr>userParams = [], input = ListVal ?xs, width = 5, ratio = Fin (1/2), cutExtrema = 1\<rparr>"
  have h1: "\<bar>21 * 1 :: int\<bar> \<le> 2 ^ 53" by simp
  have h2: "\<bar>4 :: int\<bar> \<le> 2 ^ 30 \<and> \<bar>1 / 2 :: real\<bar> \<le> 2 ^ 10 \<and> dyadic (1 / 2)"
    by (simp add: dyadic_def)
  have h3: "input ?f = ListVal ?xs \<and> width ?f \<le> int (length ?xs) \<and> ratio ?f \<noteq> Fin 1 \<and> 0 < cutExtrema ?f"
    by simp
  from cutExtrema_at_construction [THEN conjunct2, THEN conjunct1, rule_format, OF h1,
      of F "\<lambda>n. False" NoneVal]
  obtain m where "MovingMedian_init F (\<lambda>n. False) NoneVal 21 (IntVal 1) = Inr m"
    and "0 \<le> (21::int) * 1 \<longrightarrow> cutExtrema m = \<lfloor>real_of_int (21 * 1) / 2\<rfloor>"
    by blast
  then have r1: "\<exists>m. MovingMedian_init F (\<lambda>n. False) NoneVal 21 (IntVal 1) = Inr m \<and> cutExtrema m = 10"
    by (intro exI [of _ m]) simp
  from cutExtrema_at_construction [THEN conjunct2, THEN conjunct2, THEN conjunct1, rule_format,
      OF h2, of F "\<lambda>n. False" NoneVal]
  obtain m' where "MovingMedian_init F (\<lambda>n. False) NoneVal 4 (FloatVal (Fin (1/2))) = Inr m'"
    and "0 \<le> real_of_int 4 * (1 / 2) \<longrightarrow> cutExtrema m' = \<lfloor>real_of_int 4 * (1 / 2) / 2\<rfloor>"
    by blast
  then have r2: "\<exists>m. MovingMedian_init F (\<lambda>n. False) NoneVal 4 (FloatVal (Fin (1/2))) = Inr m
                   \<and> cutExtrema m = 1"
    by (intro exI [of _ m']) simp
  have rng: "py_range (int (length ?xs) - width ?f) = [0]"
    by (simp add: py_range_def)
  have blk: "np_sort (py_slice ?xs 0 (0 + width ?f)) = [Fin 1, Fin 2, Fin 3, Fin 4, Fin 5]"
    by (simp add: np_sort_def py_slice_def clamp_index_def)
  have mn: "np_mean F [Fin 2, Fin 3, Fin 4] = Fin 3"
    using np_mean_exact [of "[Fin 2, Fin 3, Fin 4]" F]
    by (simp add: exact_list_def dyadic_def)
  have "MovingMedian_apply F ?f =
          Inr (ListVal (map (\<lambda>i. np_mean F
                                (take (length (np_sort (py_slice ?xs i (i + width ?f))) - 2 * nat (cutExtrema ?f))
                                   (drop (nat (cutExtrema ?f)) (np_sort (py_slice ?xs i (i + width ?f))))))
                          (py_range (int (length ?xs) - width ?f))))"
    by (rule cutExtrema_at_construction
          [THEN conjunct2, THEN conjunct2, THEN conjunct2, rule_format, OF h3])
  then have r3: "MovingMedian_apply F ?f = Inr (ListVal [Fin 3])"
    unfolding rng list.map blk by (simp add: mn)
  from r1 r2 r3
  show "(\<exists>m. MovingMedian_init F (\<lambda>n. False) NoneVal 21 (IntVal 1) = Inr m \<and> cutExtrema m = 10)
      \<and> (\<exists>m. MovingMedian_init F (\<lambda>n. False) NoneVal 4 (FloatVal (Fin (1/2))) = Inr m
             \<and> cutExtrema m = 1)
      \<and> MovingMedian_apply F ?f = Inr (ListVal [Fin 3])"
    by (intro conjI)
qed

subsection \<open>Editing the ratio of a MovingAverage\<close>

text \<open>
  C10, evaluated on the code. Every MovingAverage is built with \<open>width\<close> and \<open>ratio\<close> in
  \<open>_userParams\<close>, with ratio 0 and \<open>cutExtrema\<close> 0. On a default MovingAverage, the user
  edits \<open>width\<close> to 4 and then \<open>ratio\<close> to 0.5: \<open>setParam\<close> assigns both, and
  \<open>cutExtrema\<close> stays 0. On the input 1, 2, 3, 10, 0 the edited filter returns 4, the mean
  of the whole window, where \<open>MovingMedian(input, 4, 0.5)\<close>, whose \<open>cutExtrema\<close> is 1,
  returns 2.5, the mean of the window without its least and greatest element.
\<close>

theorem MovingAverage_ratio_edit:
  "(\<forall>inh d w. \<exists>m. MovingAverage_init F inh d w = Inr m
        \<and> userParams m = [(''width'', PyInt), (''ratio'', PyFloat)]
        \<and> width m = w \<and> ratio m = Fin 0 \<and> cutExtrema m = 0)
   \<and> (\<exists>m m1 m2 mm.
          MovingAverage_init F (\<lambda>n. False) NoneVal DEFAULT_WIDTH = Inr m
        \<and> setParam (\<lambda>s. if s = ''4'' then Some 4 else None)
             (\<lambda>s. if s = ''0.5'' then Some (Fin (1/2)) else None)
             [(''width'', ''4''), (''ratio'', '''')] (MovingAverageF m) ''width'' PyInt
            = Some (MovingAverageF m1, [])
        \<and> setParam (\<lambda>s. if s = ''4'' then Some 4 else None)
             (\<lambda>s. if s = ''0.5'' then Some (Fin (1/2)) else None)
             [(''width'', ''4''), (''ratio'', ''0.5'')] (MovingAverageF m1) ''ratio'' PyFloat
            = Some (MovingAverageF m2, [])
        \<and> width m2 = 4 \<and> ratio m2 = Fin (1/2) \<and> cutExtrema m2 = 0
        \<and> filter_apply F (set_input (MovingAverageF m2) (ListVal [Fin 1, Fin 2, Fin 3, Fin 10, Fin 0]))
            = Inr (ListVal [Fin 4])
        \<and> MovingMedian_init F (\<lambda>n. False) (ListVal [Fin 1, Fin 2, Fin 3, Fin 10, Fin 0]) 4
              (FloatVal (Fin (1/2)))
            = Inr mm
        \<and> cutExtrema mm = 1
        \<and> filter_apply F (MovingMedianF mm) = Inr (ListVal [Fin (5/2)]))"
proof (rule conjI)
  have z: "\<bar>w * 0\<bar> \<le> 2 ^ 53" for w :: int by simp
  show "\<forall>inh d w. \<exists>m. MovingAverage_init F inh d w = Inr m
        \<and> userParams m = [(''width'', PyInt), (''ratio'', PyFloat)]
        \<and> width m = w \<and> ratio m = Fin 0 \<and> cutExtrema m = 0"
    by (simp add: MovingAverage_init_def MovingMedian_init_IntVal [OF z] trunc_def)
next
  let ?ups = "[(''width'', PyInt), (''ratio'', PyFloat)]"
  let ?xs = "[Fin 1, Fin 2, Fin 3, Fin 10, Fin 0]"
  let ?m = "\<lparr>userParams = ?ups, input = NoneVal, width = 21, ratio = Fin 0, cutExtrema = 0\<rparr>"
  let ?m1 = "\<lparr>userParams = ?ups, input = NoneVal, width = 4, ratio = Fin 0, cutExtrema = 0\<rparr>"
  let ?m2 = "\<lparr>userParams = ?ups, input = NoneVal, width = 4, ratio = Fin (1/2), cutExtrema = 0\<rparr>"
  let ?mm = "\<lparr>userParams = ?ups, input = ListVal ?xs, width = 4, ratio = Fin (1/2), cutExtrema = 1\<rparr>"
  have z: "\<bar>21 * 0 :: int\<bar> \<le> 2 ^ 53" by simp
  have a: "MovingAverage_init F (\<lambda>n. False) NoneVal DEFAULT_WIDTH = Inr ?m"
    using MovingMedian_init_IntVal [OF z, of F "\<lambda>n. False" NoneVal]
    by (simp add: MovingAverage_init_def trunc_def DEFAULT_WIDTH_def)
  have b: "setParam (\<lambda>s. if s = ''4'' then Some 4 else None)
             (\<lambda>s. if s = ''0.5'' then Some (Fin (1/2)) else None)
             [(''width'', ''4''), (''ratio'', '''')] (MovingAverageF ?m) ''width'' PyInt
            = Some (MovingAverageF ?m1, [])"
    by (simp add: setParam_def setattr_MovingMedian_def)
  have c: "setParam (\<lambda>s. if s = ''4'' then Some 4 else None)
             (\<lambda>s. if s = ''0.5'' then Some (Fin (1/2)) else None)
             [(''width'', ''4''), (''ratio'', ''0.5'')] (MovingAverageF ?m1) ''ratio'' PyFloat
            = Some (MovingAverageF ?m2, [])"
    by (simp add: setParam_def setattr_MovingMedian_def)
  have rng: "py_range (int (length ?xs) - 4) = [0]"
    by (simp add: py_range_def)
  have blk: "np_sort (py_slice ?xs 0 (0 + 4)) = [Fin 1, Fin 2, Fin 3, Fin 10]"
    by (simp add: np_sort_def py_slice_def clamp_index_def)
  have trm: "py_slice [Fin 1, Fin 2, Fin 3, Fin 10] 1 (- 1) = [Fin 2, Fin 3]"
    by (simp add: py_slice_def clamp_index_def)
  have mn4: "np_mean F [Fin 1, Fin 2, Fin 3, Fin 10] = Fin 4"
    using np_mean_exact [of "[Fin 1, Fin 2, Fin 3, Fin 10]" F]
    by (simp add: exact_list_def dyadic_def)
  have mn2: "np_mean F [Fin 2, Fin 3] = Fin (5/2)"
    using np_mean_exact [of "[Fin 2, Fin 3]" F]
    by (simp add: exact_list_def dyadic_def)
  have "filter_apply F (set_input (MovingAverageF ?m2) (ListVal ?xs))
     = Inr (ListVal (map (\<lambda>i. np_mean F (np_sort (py_slice ?xs i (i + 4))))
                       (py_range (int (length ?xs) - 4))))"
    by (simp add: MovingMedian_apply_def)
  also have "\<dots> = Inr (ListVal [Fin 4])"
    unfolding rng list.map blk by (simp add: mn4)
  finally have d: "filter_apply F (set_input (MovingAverageF ?m2) (ListVal ?xs)) = Inr (ListVal [Fin 4])" .
  have g: "\<bar>4 :: int\<bar> \<le> 2 ^ 30" "\<bar>1 / 2 :: real\<bar> \<le> 2 ^ 10" "dyadic (1 / 2)"
    by (simp_all add: dyadic_def)
  have e: "MovingMedian_init F (\<lambda>n. False) (ListVal ?xs) 4 (FloatVal (Fin (1/2))) = Inr ?mm"
    using MovingMedian_init_FloatVal [OF g, of F "\<lambda>n. False" "ListVal ?xs"]
    by (simp add: trunc_def)
  have "filter_apply F (MovingMedianF ?mm)
     = Inr (ListVal (map (\<lambda>i. np_mean F (py_slice (np_sort (py_slice ?xs i (i + 4))) 1 (- 1)))
                       (py_range (int (length ?xs) - 4))))"
    by (simp add: MovingMedian_apply_def)
  also have "\<dots> = Inr (ListVal [Fin (5/2)])"
    unfolding rng list.map blk trm by (simp add: mn2)
  finally have f: "filter_apply F (MovingMedianF ?mm) = Inr (ListVal [Fin (5/2)])" .
  show "\<exists>m m1 m2 mm.
          MovingAverage_init F (\<lambda>n. False) NoneVal DEFAULT_WIDTH = Inr m
        \<and> setParam (\<lambda>s. if s = ''4'' then Some 4 else None)
             (\<lambda>s. if s = ''0.5'' then Some (Fin (1/2)) else None)
             [(''width'', ''4''), (''ratio'', '''')] (MovingAverageF m) ''width'' PyInt
            = Some (MovingAverageF m1, [])
        \<and> setParam (\<lambda>s. if s = ''4'' then Some 4 else None)
             (\<lambda>s. if s = ''0.5'' then Some (Fin (1/2)) else None)
             [(''width'', ''4''), (''ratio'', ''0.5'')] (MovingAverageF m1) ''ratio'' PyFloat
            = Some (MovingAverageF m2, [])
        \<and> width m2 = 4 \<and> ratio m2 = Fin (1/2) \<and> cutExtrema m2 = 0
        \<and> filter_apply F (set_input (MovingAverageF m2) (ListVal ?xs)) = Inr (ListVal [Fin 4])
        \<and> MovingMedian_init F (\<lambda>n. False) (ListVal ?xs) 4 (FloatVal (Fin (1/2))) = Inr mm
        \<and> cutExtrema mm = 1
        \<and> filter_apply F (MovingMedianF mm) = Inr (ListVal [Fin (5/2)])"
    apply (rule exI [of _ ?m], rule exI [of _ ?m1], rule exI [of _ ?m2], rule exI [of _ ?mm])
    apply (intro conjI a b c d e f)
    apply simp_all
    done
qed

subsection \<open>The centering filters\<close>

lemma flt_irrefl: "\<not> flt x x"
  by (cases x) auto

lemma flt_trans: "flt x y \<Longrightarrow> flt y z \<Longrightarrow> flt x z"
  by (cases x; cases y; cases z) auto

lemma py_min_fold:
  assumes "m \<in> S" and "\<forall>x\<in>S. \<not> flt x m"
  shows "foldl (\<lambda>m y. if flt y m then y else m) m ys \<in> S \<union> set ys
       \<and> (\<forall>x\<in>S \<union> set ys. \<not> flt x (foldl (\<lambda>m y. if flt y m then y else m) m ys))"
  using assms
proof (induction ys arbitrary: m S)
  case Nil
  then show ?case by simp
next
  case (Cons y ys)
  let ?m = "if flt y m then y else m"
  have in': "?m \<in> insert y S" using Cons.prems(1) by simp
  have low: "\<forall>x\<in>insert y S. \<not> flt x ?m"
    using Cons.prems(2) flt_irrefl flt_trans by auto
  from Cons.IH [OF in' low] show ?case by simp
qed

lemma py_min_least:
  assumes "xs \<noteq> []"
  shows "py_min xs \<in> set xs \<and> (\<forall>x\<in>set xs. \<not> flt x (py_min xs))"
proof -
  from assms obtain y ys where xs: "xs = y # ys" by (cases xs) auto
  have "y \<in> {y}" and "\<forall>x\<in>{y}. \<not> flt x y" by (simp_all add: flt_irrefl)
  from py_min_fold [OF this, of ys] show ?thesis
    by (simp add: xs py_min_def)
qed

lemma fsub_exact:
  "exact_elem (Fin a) \<Longrightarrow> exact_elem (Fin b) \<Longrightarrow> fsub F (Fin a) (Fin b) = Fin (a - b)"
  by simp

text \<open>
  C6. On a non-empty list each centering filter returns a list of the same length whose
  \<open>i\<close>-th element is the float \<open>input[i] - s\<close>, where \<open>s\<close> is \<open>np.median\<close>, \<open>np.mean\<close>
  or \<open>min\<close> of the whole input. \<open>min\<close> is a member of the input that no member is less
  than. When no member is NaN and the length is odd, the median is the middle of the
  sorted input; where the sums of the input are exact and the quotient is a double, the
  mean is the sum divided by the length; and a difference of two floats that are
  multiples of \<open>2^-10\<close> up to \<open>2^30\<close> is their exact difference. On \<open>None\<close> or the empty
  list each filter returns \<open>None\<close> and raises nothing.
\<close>

theorem centering_apply:
  "(input f = ListVal xs \<and> xs \<noteq> [] \<longrightarrow>
      MedianCentering_apply F f = Inr (ListVal (map (\<lambda>x. fsub F x (np_median F xs)) xs))
    \<and> MeanCentering_apply F f = Inr (ListVal (map (\<lambda>x. fsub F x (np_mean F xs)) xs))
    \<and> MinCentering_apply F f = Inr (ListVal (map (\<lambda>x. fsub F x (py_min xs)) xs))
    \<and> length (map (\<lambda>x. fsub F x (np_median F xs)) xs) = length xs
    \<and> length (map (\<lambda>x. fsub F x (np_mean F xs)) xs) = length xs
    \<and> length (map (\<lambda>x. fsub F x (py_min xs)) xs) = length xs
    \<and> (\<forall>i<length xs.
           map (\<lambda>x. fsub F x (np_median F xs)) xs ! i = fsub F (xs ! i) (np_median F xs)
         \<and> map (\<lambda>x. fsub F x (np_mean F xs)) xs ! i = fsub F (xs ! i) (np_mean F xs)
         \<and> map (\<lambda>x. fsub F x (py_min xs)) xs ! i = fsub F (xs ! i) (py_min xs))
    \<and> py_min xs \<in> set xs \<and> (\<forall>x\<in>set xs. \<not> flt x (py_min xs))
    \<and> (NaN \<notin> set xs \<and> odd (length xs) \<longrightarrow> np_median F xs = np_sort xs ! (length xs div 2))
    \<and> (exact_list xs \<and> dyadic (sum_list (finites xs) / real (length xs)) \<longrightarrow>
          np_mean F xs = Fin (sum_list (finites xs) / real (length xs))))
   \<and> (exact_elem (Fin a) \<and> exact_elem (Fin b) \<longrightarrow> fsub F (Fin a) (Fin b) = Fin (a - b))
   \<and> (input f = NoneVal \<or> input f = ListVal [] \<longrightarrow>
        MedianCentering_apply F f = Inr NoneVal
      \<and> MeanCentering_apply F f = Inr NoneVal
      \<and> MinCentering_apply F f = Inr NoneVal)"
proof (intro conjI impI)
  assume a: "input f = ListVal xs \<and> xs \<noteq> []"
  then show "MedianCentering_apply F f = Inr (ListVal (map (\<lambda>x. fsub F x (np_median F xs)) xs))"
    by (simp add: MedianCentering_apply_def truthy_def)
  from a show "MeanCentering_apply F f = Inr (ListVal (map (\<lambda>x. fsub F x (np_mean F xs)) xs))"
    by (simp add: MeanCentering_apply_def truthy_def)
  from a show "MinCentering_apply F f = Inr (ListVal (map (\<lambda>x. fsub F x (py_min xs)) xs))"
    by (simp add: MinCentering_apply_def truthy_def)
  show "length (map (\<lambda>x. fsub F x (np_median F xs)) xs) = length xs" by simp
  show "length (map (\<lambda>x. fsub F x (np_mean F xs)) xs) = length xs" by simp
  show "length (map (\<lambda>x. fsub F x (py_min xs)) xs) = length xs" by simp
  show "\<forall>i<length xs.
           map (\<lambda>x. fsub F x (np_median F xs)) xs ! i = fsub F (xs ! i) (np_median F xs)
         \<and> map (\<lambda>x. fsub F x (np_mean F xs)) xs ! i = fsub F (xs ! i) (np_mean F xs)
         \<and> map (\<lambda>x. fsub F x (py_min xs)) xs ! i = fsub F (xs ! i) (py_min xs)"
    by simp
  from a py_min_least [of xs] show "py_min xs \<in> set xs" by simp
  from a py_min_least [of xs] show "\<forall>x\<in>set xs. \<not> flt x (py_min xs)" by simp
next
  assume "input f = ListVal xs \<and> xs \<noteq> []" and "NaN \<notin> set xs \<and> odd (length xs)"
  then show "np_median F xs = np_sort xs ! (length xs div 2)"
    by (simp add: np_median_def)
next
  assume a: "input f = ListVal xs \<and> xs \<noteq> []"
    and e: "exact_list xs \<and> dyadic (sum_list (finites xs) / real (length xs))"
  then show "np_mean F xs = Fin (sum_list (finites xs) / real (length xs))"
    by (simp add: np_mean_exact)
next
  assume "exact_elem (Fin a) \<and> exact_elem (Fin b)"
  then show "fsub F (Fin a) (Fin b) = Fin (a - b)" by simp
next
  assume e: "input f = NoneVal \<or> input f = ListVal []"
  then show "MedianCentering_apply F f = Inr NoneVal"
    by (auto simp: MedianCentering_apply_def truthy_def)
  from e show "MeanCentering_apply F f = Inr NoneVal"
    by (auto simp: MeanCentering_apply_def truthy_def)
  from e show "MinCentering_apply F f = Inr NoneVal"
    by (auto simp: MinCentering_apply_def truthy_def)
qed

theorem centering_apply_witness:
  "\<forall>F. MeanCentering_apply F \<lparr>userParams = [], input = ListVal [Fin 1, Fin 2, Fin 3, Fin 4, Fin 5]\<rparr>
         = Inr (ListVal [Fin (-2), Fin (-1), Fin 0, Fin 1, Fin 2])
      \<and> MedianCentering_apply F \<lparr>userParams = [], input = ListVal [Fin 1, Fin 2, Fin 3, Fin 4, Fin 5]\<rparr>
         = Inr (ListVal [Fin (-2), Fin (-1), Fin 0, Fin 1, Fin 2])
      \<and> MinCentering_apply F \<lparr>userParams = [], input = ListVal [Fin 1, Fin 2, Fin 3, Fin 4, Fin 5]\<rparr>
         = Inr (ListVal [Fin 0, Fin 1, Fin 2, Fin 3, Fin 4])
      \<and> MeanCentering_apply F \<lparr>userParams = [], input = ListVal []\<rparr> = Inr NoneVal"
proof
  fix F
  let ?xs = "[Fin 1, Fin 2, Fin 3, Fin 4, Fin 5]"
  let ?f = "\<lparr>userParams = [], input = ListVal ?xs\<rparr>"
  let ?e = "\<lparr>userParams = [], input = ListVal []\<rparr>"
  have h: "input ?f = ListVal ?xs \<and> ?xs \<noteq> []" by simp
  have od: "NaN \<notin> set ?xs \<and> odd (length ?xs)" by simp
  have ex: "exact_list ?xs \<and> dyadic (sum_list (finites ?xs) / real (length ?xs))"
    by (simp add: exact_list_def dyadic_def)
  have e: "input ?e = NoneVal \<or> input ?e = ListVal []" by simp
  note c = centering_apply [of ?f ?xs F, THEN conjunct1, rule_format, OF h]
  note c3 = c [THEN conjunct2, THEN conjunct2, THEN conjunct2]
  note c6 = c3 [THEN conjunct2, THEN conjunct2, THEN conjunct2]
  note c9 = c6 [THEN conjunct2, THEN conjunct2, THEN conjunct2]
  have med: "MedianCentering_apply F ?f
               = Inr (ListVal (map (\<lambda>x. fsub F x (np_median F ?xs)) ?xs))"
    by (rule c [THEN conjunct1])
  have mea: "MeanCentering_apply F ?f = Inr (ListVal (map (\<lambda>x. fsub F x (np_mean F ?xs)) ?xs))"
    by (rule c [THEN conjunct2, THEN conjunct1])
  have mi: "MinCentering_apply F ?f = Inr (ListVal (map (\<lambda>x. fsub F x (py_min ?xs)) ?xs))"
    by (rule c [THEN conjunct2, THEN conjunct2, THEN conjunct1])
  have mdv: "NaN \<notin> set ?xs \<and> odd (length ?xs) \<longrightarrow> np_median F ?xs = np_sort ?xs ! (length ?xs div 2)"
    by (rule c9 [THEN conjunct1])
  have mnv: "exact_list ?xs \<and> dyadic (sum_list (finites ?xs) / real (length ?xs)) \<longrightarrow>
          np_mean F ?xs = Fin (sum_list (finites ?xs) / real (length ?xs))"
    by (rule c9 [THEN conjunct2])
  from mdv od have "np_median F ?xs = np_sort ?xs ! (length ?xs div 2)" by (rule mp)
  then have mdn: "np_median F ?xs = Fin 3" by (simp add: np_sort_def)
  from mnv ex have "np_mean F ?xs = Fin (sum_list (finites ?xs) / real (length ?xs))" by (rule mp)
  then have mn: "np_mean F ?xs = Fin 3" by simp
  have pm: "py_min ?xs = Fin 1" by (simp add: py_min_def)
  have r1: "MeanCentering_apply F ?f = Inr (ListVal [Fin (-2), Fin (-1), Fin 0, Fin 1, Fin 2])"
    unfolding mea mn by (simp add: dyadic_def)
  have r2: "MedianCentering_apply F ?f = Inr (ListVal [Fin (-2), Fin (-1), Fin 0, Fin 1, Fin 2])"
    unfolding med mdn by (simp add: dyadic_def)
  have r3: "MinCentering_apply F ?f = Inr (ListVal [Fin 0, Fin 1, Fin 2, Fin 3, Fin 4])"
    unfolding mi pm by (simp add: dyadic_def)
  from centering_apply [of ?e "[]" F, THEN conjunct2, THEN conjunct2, rule_format, OF e]
  have r4: "MeanCentering_apply F ?e = Inr NoneVal" by (elim conjE)
  from r1 r2 r3 r4
  show "MeanCentering_apply F ?f = Inr (ListVal [Fin (-2), Fin (-1), Fin 0, Fin 1, Fin 2])
      \<and> MedianCentering_apply F ?f = Inr (ListVal [Fin (-2), Fin (-1), Fin 0, Fin 1, Fin 2])
      \<and> MinCentering_apply F ?f = Inr (ListVal [Fin 0, Fin 1, Fin 2, Fin 3, Fin 4])
      \<and> MeanCentering_apply F ?e = Inr NoneVal"
    by (intro conjI)
qed

subsection \<open>FiltersModel.apply\<close>

lemma get_input_set_input: "get_input (set_input f d) = d"
  by (cases f) simp_all

lemma set_input_back: "set_input (set_input f d) (get_input f) = f"
  by (cases f) simp_all

lemma FiltersModel_apply_length:
  "length (fst (FiltersModel_apply F fs d)) = length fs"
proof (induction F fs d rule: FiltersModel_apply.induct)
  case (3 F f fs d)
  show ?case
  proof (cases "filter_apply F (set_input f d)")
    case (Inl e)
    then show ?thesis by (simp add: Let_def)
  next
    case (Inr d')
    with "3.IH" [OF refl Inr] show ?thesis
      by (cases "FiltersModel_apply F fs d'") (simp add: Let_def)
  qed
qed simp_all

lemma FiltersModel_apply_snoc:
  "FiltersModel_apply F (fs @ [g]) d =
     (case FiltersModel_apply F fs d of
        (fs', Inl e) \<Rightarrow> (fs' @ [g], Inl e)
      | (fs', Inr d') \<Rightarrow>
          (case g of
             None \<Rightarrow> (fs' @ [None], Inl AttributeError)
           | Some f \<Rightarrow> (fs' @ [Some (set_input f d')], filter_apply F (set_input f d'))))"
proof (induction F fs d rule: FiltersModel_apply.induct)
  case (1 F d)
  show ?case by (cases g) (auto simp: Let_def split: sum.splits)
next
  case (2 F fs d)
  show ?case by simp
next
  case (3 F f fs d)
  show ?case
  proof (cases "filter_apply F (set_input f d)")
    case (Inl e)
    then show ?thesis by (simp add: Let_def)
  next
    case (Inr d')
    with "3.IH" [OF refl Inr] show ?thesis
      by (auto simp: Let_def split: sum.splits prod.splits option.splits)
  qed
qed

lemma FiltersModel_apply_prefix:
  "FiltersModel_apply F fs d = (fs', Inr out) \<Longrightarrow>
     \<exists>di. FiltersModel_apply F (take i fs) d = (take i fs', Inr di)"
proof (induction F fs d arbitrary: i fs' rule: FiltersModel_apply.induct)
  case (1 F d)
  then show ?case by auto
next
  case (2 F fs d)
  then show ?case by simp
next
  case (3 F f fs d)
  show ?case
  proof (cases i)
    case 0
    then show ?thesis by simp
  next
    case (Suc j)
    from "3.prems" obtain d' where d': "filter_apply F (set_input f d) = Inr d'"
      by (cases "filter_apply F (set_input f d)") (auto simp: Let_def)
    from "3.prems" d' obtain gs where gs: "FiltersModel_apply F fs d' = (gs, Inr out)"
      and fs': "fs' = Some (set_input f d) # gs"
      by (auto simp: Let_def split: prod.splits)
    from "3.IH" [OF refl d' gs, of j] obtain di where
      "FiltersModel_apply F (take j fs) d' = (take j gs, Inr di)" by blast
    with d' fs' Suc show ?thesis by (simp add: Let_def)
  qed
qed

lemma FiltersModel_apply_stage:
  assumes ok: "FiltersModel_apply F fs d = (fs', Inr out)" and i: "i < length fs"
  shows "\<exists>f f' di. fs ! i = Some f \<and> fs' ! i = Some f'
           \<and> snd (FiltersModel_apply F (take i fs) d) = Inr di
           \<and> get_input f' = di
           \<and> set_input f' (get_input f) = f
           \<and> snd (FiltersModel_apply F (take (Suc i) fs) d) = filter_apply F f'"
proof -
  from FiltersModel_apply_prefix [OF ok, of i] obtain di where
    pi: "FiltersModel_apply F (take i fs) d = (take i fs', Inr di)" by blast
  from FiltersModel_apply_prefix [OF ok, of "Suc i"] obtain dj where
    pj: "FiltersModel_apply F (take (Suc i) fs) d = (take (Suc i) fs', Inr dj)" by blast
  have len: "length fs' = length fs"
    using FiltersModel_apply_length [of F fs d] ok by simp
  have split: "take (Suc i) fs = take i fs @ [fs ! i]"
    using i by (simp add: take_Suc_conv_app_nth)
  have split': "take (Suc i) fs' = take i fs' @ [fs' ! i]"
    using i len by (simp add: take_Suc_conv_app_nth)
  from pj have "FiltersModel_apply F (take i fs @ [fs ! i]) d = (take i fs' @ [fs' ! i], Inr dj)"
    by (simp add: split split')
  then obtain f where f: "fs ! i = Some f" and f': "fs' ! i = Some (set_input f di)"
    and out: "filter_apply F (set_input f di) = Inr dj"
    by (cases "fs ! i") (auto simp: FiltersModel_apply_snoc pi)
  from pi pj f f' out show ?thesis
    by (simp add: get_input_set_input set_input_back)
qed

text \<open>
  C7. On the empty chain \<open>FiltersModel.apply\<close> returns its argument. When it returns a
  value on a chain \<open>fs\<close>, every entry is a filter; after the call the \<open>input\<close> of the
  \<open>i\<close>-th filter is what the first \<open>i\<close> stages return (the argument itself for the first
  filter) and the filter is otherwise as it was; the first \<open>i + 1\<close> stages return what
  that filter's \<open>apply\<close> returns; and the value returned is what the last filter's
  \<open>apply\<close> returns.
\<close>

theorem FiltersModel_apply_chain:
  "FiltersModel_apply F [] d = ([], Inr d)
   \<and> (FiltersModel_apply F fs d = (fs', Inr out) \<longrightarrow>
        length fs' = length fs
        \<and> (\<forall>i<length fs. \<exists>f f' di. fs ! i = Some f \<and> fs' ! i = Some f'
               \<and> snd (FiltersModel_apply F (take i fs) d) = Inr di
               \<and> get_input f' = di
               \<and> set_input f' (get_input f) = f
               \<and> snd (FiltersModel_apply F (take (Suc i) fs) d) = filter_apply F f')
        \<and> (fs \<noteq> [] \<longrightarrow>
              (\<exists>f. fs' ! 0 = Some f \<and> get_input f = d)
            \<and> (\<exists>f. last fs' = Some f \<and> filter_apply F f = Inr out)))"
proof (intro conjI impI allI)
  show "FiltersModel_apply F [] d = ([], Inr d)" by simp
next
  assume ok: "FiltersModel_apply F fs d = (fs', Inr out)"
  then show "length fs' = length fs"
    using FiltersModel_apply_length [of F fs d] by simp
next
  fix i
  assume "FiltersModel_apply F fs d = (fs', Inr out)" and "i < length fs"
  then show "\<exists>f f' di. fs ! i = Some f \<and> fs' ! i = Some f'
               \<and> snd (FiltersModel_apply F (take i fs) d) = Inr di
               \<and> get_input f' = di
               \<and> set_input f' (get_input f) = f
               \<and> snd (FiltersModel_apply F (take (Suc i) fs) d) = filter_apply F f'"
    by (rule FiltersModel_apply_stage)
next
  assume ok: "FiltersModel_apply F fs d = (fs', Inr out)" and ne: "fs \<noteq> []"
  from ne have z: "0 < length fs" by simp
  from FiltersModel_apply_stage [OF ok z] obtain f' di where
    "fs' ! 0 = Some f'" and "snd (FiltersModel_apply F (take 0 fs) d) = Inr di"
    and "get_input f' = di"
    by blast
  then show "\<exists>f. fs' ! 0 = Some f \<and> get_input f = d" by simp
next
  assume ok: "FiltersModel_apply F fs d = (fs', Inr out)" and ne: "fs \<noteq> []"
  have len: "length fs' = length fs"
    using FiltersModel_apply_length [of F fs d] ok by simp
  from ne have i: "length fs - 1 < length fs" by simp
  from FiltersModel_apply_stage [OF ok i] obtain f' where
    f': "fs' ! (length fs - 1) = Some f'"
    and out: "snd (FiltersModel_apply F (take (Suc (length fs - 1)) fs) d) = filter_apply F f'"
    by blast
  from ne have "take (Suc (length fs - 1)) fs = fs" by simp
  with out ok have "filter_apply F f' = Inr out" by simp
  moreover from ne len have "fs' \<noteq> []" by auto
  with len f' have "last fs' = Some f'"
    by (simp add: last_conv_nth)
  ultimately show "\<exists>f. last fs' = Some f \<and> filter_apply F f = Inr out" by blast
qed

theorem FiltersModel_apply_chain_witness:
  "\<forall>F. FiltersModel_apply F
     [Some (MinCenteringF \<lparr>userParams = [], input = NoneVal\<rparr>),
      Some (MeanCenteringF \<lparr>userParams = [], input = NoneVal\<rparr>),
      Some (MedianCenteringF \<lparr>userParams = [], input = NoneVal\<rparr>),
      Some (MovingAverageF \<lparr>userParams = [(''width'', PyInt), (''ratio'', PyFloat)],
              input = NoneVal, width = 2, ratio = Fin 0, cutExtrema = 0\<rparr>),
      Some (MovingMedianF \<lparr>userParams = [(''width'', PyInt), (''ratio'', PyFloat)],
              input = NoneVal, width = 1, ratio = Fin 1, cutExtrema = 0\<rparr>)]
     (ListVal [Fin 3, Fin 1, Fin 2, Fin 6])
   = ([Some (MinCenteringF \<lparr>userParams = [], input = ListVal [Fin 3, Fin 1, Fin 2, Fin 6]\<rparr>),
       Some (MeanCenteringF \<lparr>userParams = [], input = ListVal [Fin 2, Fin 0, Fin 1, Fin 5]\<rparr>),
       Some (MedianCenteringF
               \<lparr>userParams = [], input = ListVal [Fin 0, Fin (- 2), Fin (- 1), Fin 3]\<rparr>),
       Some (MovingAverageF \<lparr>userParams = [(''width'', PyInt), (''ratio'', PyFloat)],
               input = ListVal [Fin (1/2), Fin (- (3/2)), Fin (- (1/2)), Fin (7/2)],
               width = 2, ratio = Fin 0, cutExtrema = 0\<rparr>),
       Some (MovingMedianF \<lparr>userParams = [(''width'', PyInt), (''ratio'', PyFloat)],
               input = ListVal [Fin (- (1/2)), Fin (- 1)], width = 1, ratio = Fin 1,
               cutExtrema = 0\<rparr>)],
      Inr (ListVal [Fin (- (1/2))]))
   \<and> (\<exists>f. last [Some (MinCenteringF \<lparr>userParams = [], input = ListVal [Fin 3, Fin 1, Fin 2, Fin 6]\<rparr>),
       Some (MeanCenteringF \<lparr>userParams = [], input = ListVal [Fin 2, Fin 0, Fin 1, Fin 5]\<rparr>),
       Some (MedianCenteringF
               \<lparr>userParams = [], input = ListVal [Fin 0, Fin (- 2), Fin (- 1), Fin 3]\<rparr>),
       Some (MovingAverageF \<lparr>userParams = [(''width'', PyInt), (''ratio'', PyFloat)],
               input = ListVal [Fin (1/2), Fin (- (3/2)), Fin (- (1/2)), Fin (7/2)],
               width = 2, ratio = Fin 0, cutExtrema = 0\<rparr>),
       Some (MovingMedianF \<lparr>userParams = [(''width'', PyInt), (''ratio'', PyFloat)],
               input = ListVal [Fin (- (1/2)), Fin (- 1)], width = 1, ratio = Fin 1,
               cutExtrema = 0\<rparr>)] = Some f
          \<and> get_input f = ListVal [Fin (- (1/2)), Fin (- 1)]
          \<and> filter_apply F f = Inr (ListVal [Fin (- (1/2))]))"
proof
  fix F
  let ?ups = "[(''width'', PyInt), (''ratio'', PyFloat)]"
  let ?d0 = "[Fin 3, Fin 1, Fin 2, Fin 6]"
  let ?d1 = "[Fin 2, Fin 0, Fin 1, Fin 5]"
  let ?d2 = "[Fin 0, Fin (- 2), Fin (- 1), Fin 3]"
  let ?d3 = "[Fin (1/2), Fin (- (3/2)), Fin (- (1/2)), Fin (7/2)]"
  let ?d4 = "[Fin (- (1/2)), Fin (- 1)]"
  let ?d5 = "[Fin (- (1/2))]"
  let ?fs = "[Some (MinCenteringF \<lparr>userParams = [], input = NoneVal\<rparr>),
      Some (MeanCenteringF \<lparr>userParams = [], input = NoneVal\<rparr>),
      Some (MedianCenteringF \<lparr>userParams = [], input = NoneVal\<rparr>),
      Some (MovingAverageF \<lparr>userParams = ?ups, input = NoneVal, width = 2, ratio = Fin 0,
              cutExtrema = 0\<rparr>),
      Some (MovingMedianF \<lparr>userParams = ?ups, input = NoneVal, width = 1, ratio = Fin 1,
              cutExtrema = 0\<rparr>)]"
  let ?fs' = "[Some (MinCenteringF \<lparr>userParams = [], input = ListVal ?d0\<rparr>),
       Some (MeanCenteringF \<lparr>userParams = [], input = ListVal ?d1\<rparr>),
       Some (MedianCenteringF \<lparr>userParams = [], input = ListVal ?d2\<rparr>),
       Some (MovingAverageF \<lparr>userParams = ?ups, input = ListVal ?d3, width = 2, ratio = Fin 0,
               cutExtrema = 0\<rparr>),
       Some (MovingMedianF \<lparr>userParams = ?ups, input = ListVal ?d4, width = 1, ratio = Fin 1,
               cutExtrema = 0\<rparr>)]"
  have s1: "MinCentering_apply F \<lparr>userParams = [], input = ListVal ?d0\<rparr> = Inr (ListVal ?d1)"
    by (simp add: MinCentering_apply_def truthy_def py_min_def dyadic_def)
  have mn: "np_mean F ?d1 = Fin 2"
    using np_mean_exact [of ?d1 F] by (simp add: exact_list_def dyadic_def)
  have s2: "MeanCentering_apply F \<lparr>userParams = [], input = ListVal ?d1\<rparr> = Inr (ListVal ?d2)"
    by (simp add: MeanCentering_apply_def truthy_def mn dyadic_def)
  have md: "np_median F ?d2 = Fin (- (1/2))"
    by (simp add: np_median_def np_sort_def dyadic_def)
  have s3: "MedianCentering_apply F \<lparr>userParams = [], input = ListVal ?d2\<rparr> = Inr (ListVal ?d3)"
    by (simp add: MedianCentering_apply_def truthy_def md dyadic_def)
  have rng4: "py_range (int (length ?d3) - 2) = [0, 1]"
    by (simp add: py_range_def upt_rec)
  have b0: "np_sort (py_slice ?d3 0 (0 + 2)) = [Fin (- (3/2)), Fin (1/2)]"
    by (simp add: np_sort_def py_slice_def clamp_index_def)
  have b1: "np_sort (py_slice ?d3 1 (1 + 2)) = [Fin (- (3/2)), Fin (- (1/2))]"
    by (simp add: np_sort_def py_slice_def clamp_index_def)
  have m0: "np_mean F [Fin (- (3/2)), Fin (1/2)] = Fin (- (1/2))"
    using np_mean_exact [of "[Fin (- (3/2)), Fin (1/2)]" F] by (simp add: exact_list_def dyadic_def)
  have m1: "np_mean F [Fin (- (3/2)), Fin (- (1/2))] = Fin (- 1)"
    using np_mean_exact [of "[Fin (- (3/2)), Fin (- (1/2))]" F] by (simp add: exact_list_def dyadic_def)
  have "MovingMedian_apply F \<lparr>userParams = ?ups, input = ListVal ?d3, width = 2, ratio = Fin 0,
               cutExtrema = 0\<rparr>
     = Inr (ListVal (map (\<lambda>i. np_mean F (np_sort (py_slice ?d3 i (i + 2))))
                       (py_range (int (length ?d3) - 2))))"
    by (simp add: MovingMedian_apply_def)
  also have "\<dots> = Inr (ListVal ?d4)"
    unfolding rng4 list.map b0 b1 m0 m1 by simp
  finally have s4: "MovingMedian_apply F \<lparr>userParams = ?ups, input = ListVal ?d3, width = 2,
               ratio = Fin 0, cutExtrema = 0\<rparr> = Inr (ListVal ?d4)" .
  have rng5: "py_range (int (length ?d4) - 1) = [0]"
    by (simp add: py_range_def upt_rec)
  have "MovingMedian_apply F \<lparr>userParams = ?ups, input = ListVal ?d4, width = 1, ratio = Fin 1,
               cutExtrema = 0\<rparr>
     = Inr (ListVal (map (\<lambda>i. np_median F (py_slice ?d4 i (i + 1)))
                       (py_range (int (length ?d4) - 1))))"
    by (simp add: MovingMedian_apply_def)
  then have s5: "MovingMedian_apply F \<lparr>userParams = ?ups, input = ListVal ?d4, width = 1,
               ratio = Fin 1, cutExtrema = 0\<rparr> = Inr (ListVal ?d5)"
    unfolding rng5 list.map by (simp add: py_slice_def clamp_index_def np_median_def np_sort_def)
  have run: "FiltersModel_apply F ?fs (ListVal ?d0) = (?fs', Inr (ListVal ?d5))"
    by (simp add: s1 s2 s3 s4 s5 Let_def)
  have ne: "?fs \<noteq> []" by simp
  from FiltersModel_apply_chain [of F "ListVal ?d0" ?fs ?fs' "ListVal ?d5",
      THEN conjunct2, rule_format, OF run]
  have "?fs \<noteq> [] \<longrightarrow>
              (\<exists>f. ?fs' ! 0 = Some f \<and> get_input f = ListVal ?d0)
            \<and> (\<exists>f. last ?fs' = Some f \<and> filter_apply F f = Inr (ListVal ?d5))"
    by (elim conjE)
  with ne have "\<exists>f. last ?fs' = Some f \<and> filter_apply F f = Inr (ListVal ?d5)"
    by blast
  then have "\<exists>f. last ?fs' = Some f \<and> get_input f = ListVal ?d4
               \<and> filter_apply F f = Inr (ListVal ?d5)"
    by auto
  with run show "FiltersModel_apply F ?fs (ListVal ?d0) = (?fs', Inr (ListVal ?d5))
    \<and> (\<exists>f. last ?fs' = Some f \<and> get_input f = ListVal ?d4
          \<and> filter_apply F f = Inr (ListVal ?d5))"
    by (intro conjI)
qed

subsection \<open>JsonParser: loading a file\<close>

lemma parse_lines_logs:
  "fst (parse_lines loads idx lines lg) = lg @ List.map_filter loads lines"
proof (induction lines arbitrary: idx lg)
  case Nil
  show ?case by simp
next
  case (Cons line rest)
  show ?case
  proof (cases "loads line")
    case None
    with Cons.IH [of "Suc idx" lg] show ?thesis
      by (cases "parse_lines loads (Suc idx) rest lg") simp
  next
    case (Some v)
    with Cons.IH [of "Suc idx" "lg @ [v]"] show ?thesis by simp
  qed
qed

lemma upt_0_Suc: "[0..<Suc n] = 0 # map Suc [0..<n]"
  by (simp add: upt_conv_Cons map_Suc_upt del: upt_Suc)

lemma parse_lines_prints:
  "snd (parse_lines loads idx lines lg) =
     map (\<lambda>i. Print (''Line '' @ str_nat (idx + i) @
                 '' is not properly formatted and will be ignored''))
       (filter (\<lambda>i. loads (lines ! i) = None) [0..<length lines])"
proof (induction lines arbitrary: idx lg)
  case Nil
  show ?case by simp
next
  case (Cons line rest)
  have shift: "map (\<lambda>i. Print (''Line '' @ str_nat (idx + i) @
                 '' is not properly formatted and will be ignored''))
       (filter (\<lambda>i. loads ((line # rest) ! i) = None) (map Suc [0..<length rest]))
     = map (\<lambda>i. Print (''Line '' @ str_nat (Suc idx + i) @
                 '' is not properly formatted and will be ignored''))
       (filter (\<lambda>i. loads (rest ! i) = None) [0..<length rest])"
    by (simp add: filter_map comp_def)
  show ?case
  proof (cases "loads line")
    case None
    obtain lg' out where pl: "parse_lines loads (Suc idx) rest lg = (lg', out)"
      by (cases "parse_lines loads (Suc idx) rest lg")
    with Cons.IH [of "Suc idx" lg]
    have "out = map (\<lambda>i. Print (''Line '' @ str_nat (Suc idx + i) @
                 '' is not properly formatted and will be ignored''))
       (filter (\<lambda>i. loads (rest ! i) = None) [0..<length rest])"
      by simp
    with None pl shift show ?thesis
      by (simp add: upt_0_Suc del: upt_Suc)
  next
    case (Some v)
    with Cons.IH [of "Suc idx" "lg @ [v]"] shift show ?thesis
      by (simp add: upt_0_Suc del: upt_Suc)
  qed
qed

lemma parse_file_read:
  assumes "fs path = Some (lines, stop)"
  shows "parse_file loads fs \<lparr>logs = [], filename = fname\<rparr> path =
           (case stop of
              None \<Rightarrow> Inr \<lparr>logs = List.map_filter loads lines, filename = fname\<rparr>
            | Some e \<Rightarrow> Inl e,
            Open path #
              map (\<lambda>i. Print (''Line '' @ str_nat i @
                          '' is not properly formatted and will be ignored''))
                (filter (\<lambda>i. loads (lines ! i) = None) [0..<length lines]))"
proof -
  obtain lg out where pl: "parse_lines loads 0 lines [] = (lg, out)"
    by (cases "parse_lines loads 0 lines []")
  from pl parse_lines_logs [of loads 0 lines "[]"]
  have lg: "lg = List.map_filter loads lines" by simp
  from pl parse_lines_prints [of loads 0 lines "[]"]
  have out: "out = map (\<lambda>i. Print (''Line '' @ str_nat i @
                         '' is not properly formatted and will be ignored''))
               (filter (\<lambda>i. loads (lines ! i) = None) [0..<length lines])"
    by simp
  from assms pl show ?thesis
    unfolding lg [symmetric] out [symmetric]
    by (cases stop) (simp_all add: parse_file_def)
qed

text \<open>
  C8, as stated, fails twice. The extension of the empty path is not \<open>.json\<close>, and the
  constructor's guard \<open>if self.filename\<close> skips the check and the load, so nothing is
  raised and nothing is ingested. And a \<open>.json\<close> file that opens and whose first line
  cannot be decoded raises UnicodeDecodeError out of the constructor, a failure that is
  neither of the two.
\<close>

theorem JsonParser_init_empty_path:
  "\<not> suffix ''.json'' ''''
   \<and> JsonParser_init (\<lambda>line. None) (\<lambda>path. None) (Some '''')
       = (Inr \<lparr>logs = [], filename = Some ''''\<rparr>, [])
   \<and> fst (JsonParser_init (\<lambda>line. None) (\<lambda>path. None) (Some '''')) \<noteq> Inl IOError
   \<and> JsonParser_init (\<lambda>line. None) (\<lambda>path. Some ([], Some UnicodeDecodeError)) (Some ''a.json'')
       = (Inl UnicodeDecodeError, [Open ''a.json''])"
  by (simp add: JsonParser_init_def parse_file_def suffix_to_prefix)

text \<open>
  C8, amended. With no filename or the empty one the constructor ingests nothing and
  raises nothing. With a non-empty path that does not end in \<open>.json\<close> it raises IOError
  before any file is opened or anything is printed; with a path ending in \<open>.json\<close> that
  cannot be opened it raises FileNotFoundError. When the file opens, the lines read are
  parsed in order and exactly those that \<open>json.loads\<close> rejects are skipped, each with
  one message naming its 0-based index; when all the lines of the file are read the
  load returns with the parsed lines as logs, and when reading stops on an exception
  that exception leaves the constructor. There is no other failure.
\<close>

theorem JsonParser_init_failures:
  "JsonParser_init loads fs None = (Inr \<lparr>logs = [], filename = None\<rparr>, [])
   \<and> JsonParser_init loads fs (Some []) = (Inr \<lparr>logs = [], filename = Some []\<rparr>, [])
   \<and> (path \<noteq> [] \<and> \<not> suffix ''.json'' path \<longrightarrow>
        JsonParser_init loads fs (Some path) = (Inl IOError, []))
   \<and> (suffix ''.json'' path \<and> fs path = None \<longrightarrow>
        JsonParser_init loads fs (Some path) = (Inl FileNotFoundError, [Open path]))
   \<and> (suffix ''.json'' path \<and> fs path = Some (lines, stop) \<longrightarrow>
        JsonParser_init loads fs (Some path) =
          (case stop of
             None \<Rightarrow> Inr \<lparr>logs = List.map_filter loads lines, filename = Some path\<rparr>
           | Some e \<Rightarrow> Inl e,
           Open path #
             map (\<lambda>i. Print (''Line '' @ str_nat i @
                         '' is not properly formatted and will be ignored''))
               (filter (\<lambda>i. loads (lines ! i) = None) [0..<length lines])))
   \<and> (fst (JsonParser_init loads fs fname) = Inl e \<longrightarrow>
        e = IOError \<or> e = FileNotFoundError
        \<or> (\<exists>p ls. fname = Some p \<and> fs p = Some (ls, Some e)))"
proof (intro conjI impI)
  show "JsonParser_init loads fs None = (Inr \<lparr>logs = [], filename = None\<rparr>, [])"
    by (simp add: JsonParser_init_def)
  show "JsonParser_init loads fs (Some []) = (Inr \<lparr>logs = [], filename = Some []\<rparr>, [])"
    by (simp add: JsonParser_init_def)
next
  assume "path \<noteq> [] \<and> \<not> suffix ''.json'' path"
  then show "JsonParser_init loads fs (Some path) = (Inl IOError, [])"
    by (simp add: JsonParser_init_def)
next
  assume a: "suffix ''.json'' path \<and> fs path = None"
  then have "path \<noteq> []" by auto
  with a show "JsonParser_init loads fs (Some path) = (Inl FileNotFoundError, [Open path])"
    by (simp add: JsonParser_init_def parse_file_def)
next
  assume a: "suffix ''.json'' path \<and> fs path = Some (lines, stop)"
  then have ne: "path \<noteq> []" by auto
  from a have f: "fs path = Some (lines, stop)" by simp
  from a ne show "JsonParser_init loads fs (Some path) =
          (case stop of
             None \<Rightarrow> Inr \<lparr>logs = List.map_filter loads lines, filename = Some path\<rparr>
           | Some e \<Rightarrow> Inl e,
           Open path #
             map (\<lambda>i. Print (''Line '' @ str_nat i @
                         '' is not properly formatted and will be ignored''))
               (filter (\<lambda>i. loads (lines ! i) = None) [0..<length lines]))"
    by (simp add: JsonParser_init_def parse_file_read [of fs path lines stop loads "Some path", OF f])
next
  assume a: "fst (JsonParser_init loads fs fname) = Inl e"
  show "e = IOError \<or> e = FileNotFoundError
        \<or> (\<exists>p ls. fname = Some p \<and> fs p = Some (ls, Some e))"
  proof (cases fname)
    case None
    with a show ?thesis by (simp add: JsonParser_init_def)
  next
    case (Some p)
    show ?thesis
    proof (cases "p = [] \<or> \<not> suffix ''.json'' p")
      case True
      with a Some show ?thesis by (auto simp: JsonParser_init_def Let_def split: if_splits)
    next
      case False
      show ?thesis
      proof (cases "fs p")
        case None
        with a Some False show ?thesis
          by (simp add: JsonParser_init_def parse_file_def)
      next
        case (Some ls)
        obtain l st where ls: "ls = (l, st)" by (cases ls)
        from Some ls have f: "fs p = Some (l, st)" by simp
        from a \<open>fname = Some p\<close> False show ?thesis
          by (cases st)
             (auto simp: JsonParser_init_def parse_file_read [of fs p l st loads "Some p", OF f] f)
      qed
    qed
  qed
qed

theorem JsonParser_init_failures_witness:
  "JsonParser_init (\<lambda>line. if line = ''{}'' then Some (JDict []) else None)
     (\<lambda>path. if path = ''a.json'' then Some ([''{}'', ''not json'', ''{}''], None) else None)
     (Some ''a.json'')
   = (Inr \<lparr>logs = [JDict [], JDict []], filename = Some ''a.json''\<rparr>,
      [Open ''a.json'', Print ''Line 1 is not properly formatted and will be ignored''])
   \<and> JsonParser_init (\<lambda>line. if line = ''{}'' then Some (JDict []) else None)
     (\<lambda>path. if path = ''a.json'' then Some ([''{}'', ''not json'', ''{}''], None) else None)
     (Some ''b.json'') = (Inl FileNotFoundError, [Open ''b.json''])
   \<and> JsonParser_init (\<lambda>line. if line = ''{}'' then Some (JDict []) else None)
     (\<lambda>path. if path = ''a.json'' then Some ([''{}'', ''not json'', ''{}''], None) else None)
     (Some ''a.txt'') = (Inl IOError, [])
   \<and> JsonParser_init (\<lambda>line. if line = ''{}'' then Some (JDict []) else None)
     (\<lambda>path. Some ([''{}'', ''not json''], Some UnicodeDecodeError))
     (Some ''a.json'')
   = (Inl UnicodeDecodeError,
      [Open ''a.json'', Print ''Line 1 is not properly formatted and will be ignored''])"
proof -
  let ?loads = "\<lambda>line. if line = ''{}'' then Some (JDict []) else None"
  let ?fs = "\<lambda>path. if path = ''a.json'' then Some ([''{}'', ''not json'', ''{}''], None) else None"
  let ?bad = "\<lambda>path::string. Some ([''{}'', ''not json''], Some UnicodeDecodeError)"
  have a: "suffix ''.json'' ''a.json'' \<and> ?fs ''a.json'' = Some ([''{}'', ''not json'', ''{}''], None)"
    by (simp add: suffix_to_prefix)
  have b: "suffix ''.json'' ''b.json'' \<and> ?fs ''b.json'' = None"
    by (simp add: suffix_to_prefix)
  have c: "''a.txt'' \<noteq> [] \<and> \<not> suffix ''.json'' ''a.txt''"
    by (simp add: suffix_to_prefix)
  have d: "suffix ''.json'' ''a.json''
             \<and> ?bad ''a.json'' = Some ([''{}'', ''not json''], Some UnicodeDecodeError)"
    by (simp add: suffix_to_prefix)
  from JsonParser_init_failures
         [of ?loads ?fs "''a.json''" "[''{}'', ''not json'', ''{}'']" None,
          THEN conjunct2, THEN conjunct2, THEN conjunct2, THEN conjunct2, THEN conjunct1,
          rule_format, OF a]
  have r1: "JsonParser_init ?loads ?fs (Some ''a.json'')
   = (Inr \<lparr>logs = [JDict [], JDict []], filename = Some ''a.json''\<rparr>,
      [Open ''a.json'', Print ''Line 1 is not properly formatted and will be ignored''])"
    by (simp add: upt_rec str_nat.simps)
  from JsonParser_init_failures
         [of ?loads ?fs "''b.json''",
          THEN conjunct2, THEN conjunct2, THEN conjunct2, THEN conjunct1, rule_format, OF b]
  have r2: "JsonParser_init ?loads ?fs (Some ''b.json'') = (Inl FileNotFoundError, [Open ''b.json''])" .
  from JsonParser_init_failures
         [of ?loads ?fs "''a.txt''",
          THEN conjunct2, THEN conjunct2, THEN conjunct1, rule_format, OF c]
  have r3: "JsonParser_init ?loads ?fs (Some ''a.txt'') = (Inl IOError, [])" .
  from JsonParser_init_failures
         [of ?loads ?bad "''a.json''" "[''{}'', ''not json'']" "Some UnicodeDecodeError",
          THEN conjunct2, THEN conjunct2, THEN conjunct2, THEN conjunct2, THEN conjunct1,
          rule_format, OF d]
  have r4: "JsonParser_init ?loads ?bad (Some ''a.json'')
   = (Inl UnicodeDecodeError,
      [Open ''a.json'', Print ''Line 1 is not properly formatted and will be ignored''])"
    by (simp add: upt_rec str_nat.simps)
  from r1 r2 r3 r4 show ?thesis by (intro conjI)
qed

subsection \<open>The setter of userParams\<close>

lemma userParams_setter_eq:
  "userParams_setter has f ps =
     f\<lparr>userParams := foldl (\<lambda>u (p, t). if has p then AList.update p t u else u) (userParams f) ps\<rparr>"
  unfolding userParams_setter_def
  by (induction ps arbitrary: f) (auto split: prod.splits)

lemma register_filter:
  "foldl (\<lambda>u (p, t). if has p then AList.update p t u else u) u ps =
   foldl (\<lambda>u (p, t). if has p then AList.update p t u else u) u (filter (\<lambda>pt. has (fst pt)) ps)"
  by (induction ps arbitrary: u) (auto split: prod.splits)

lemma register_none:
  "(\<forall>pt\<in>set ps. \<not> has (fst pt)) \<Longrightarrow>
   foldl (\<lambda>u (p, t). if has p then AList.update p t u else u) u ps = u"
  by (induction ps arbitrary: u) (auto split: prod.splits)

lemma register_map_of:
  "distinct (map fst ps) \<Longrightarrow>
   map_of (foldl (\<lambda>u (p, t). if has p then AList.update p t u else u) u ps) n =
     (if has n \<and> n \<in> fst ` set ps then map_of ps n else map_of u n)"
proof (induction ps arbitrary: u)
  case Nil
  show ?case by simp
next
  case (Cons pt ps)
  obtain p t where pt: "pt = (p, t)" by (cases pt)
  from Cons.prems pt have d: "distinct (map fst ps)" and p: "p \<notin> fst ` set ps" by auto
  show ?case
  proof (cases "has p")
    case True
    with Cons.IH [OF d, of "AList.update p t u"] p pt show ?thesis
      by (auto simp: update_conv')
  next
    case False
    with Cons.IH [OF d, of u] p pt show ?thesis by auto
  qed
qed

lemma MovingMedian_apply_userParams:
  "MovingMedian_apply F (m\<lparr>userParams := u\<rparr>) = MovingMedian_apply F m"
  by (simp add: MovingMedian_apply_def cong: data.case_cong if_cong)

lemma Centering_apply_userParams:
  "MedianCentering_apply F (c\<lparr>userParams := u\<rparr>) = MedianCentering_apply F c"
  "MeanCentering_apply F (c\<lparr>userParams := u\<rparr>) = MeanCentering_apply F c"
  "MinCentering_apply F (c\<lparr>userParams := u\<rparr>) = MinCentering_apply F c"
  by (simp_all add: MedianCentering_apply_def MeanCentering_apply_def MinCentering_apply_def)

text \<open>
  C9. The setter ignores every name of \<open>params\<close> that is not an attribute of the filter:
  the result is the same as with those names removed, and when no name is an attribute
  the filter is returned unchanged, in \<open>_userParams\<close> and in every other attribute. The
  setter has no output, so it prints nothing. A name that is an attribute is registered
  with the type \<open>params\<close> gives it, and the other entries of \<open>_userParams\<close> stay;
  \<open>input\<close> and what \<open>apply\<close> returns are unchanged. \<open>setParam\<close> on a name with no
  entry changes nothing and shows no alert.
\<close>

theorem set_userParams_gate:
  "set_userParams inh f params =
     set_userParams inh f (filter (\<lambda>pt. hasattr inh f (fst pt)) params)
   \<and> ((\<forall>pt\<in>set params. \<not> hasattr inh f (fst pt)) \<longrightarrow> set_userParams inh f params = f)
   \<and> (distinct (map fst params) \<longrightarrow>
        map_of (get_userParams (set_userParams inh f params)) n =
          (if hasattr inh f n \<and> n \<in> fst ` set params then map_of params n
           else map_of (get_userParams f) n))
   \<and> get_input (set_userParams inh f params) = get_input f
   \<and> filter_apply F (set_userParams inh f params) = filter_apply F f
   \<and> (map_of entries n = None \<longrightarrow> setParam to_int to_flt entries f n t = Some (f, []))"
proof (intro conjI impI)
  show "set_userParams inh f params =
     set_userParams inh f (filter (\<lambda>pt. hasattr inh f (fst pt)) params)"
    by (cases f) (simp_all add: userParams_setter_eq register_filter [symmetric])
next
  assume "\<forall>pt\<in>set params. \<not> hasattr inh f (fst pt)"
  then show "set_userParams inh f params = f"
    by (cases f) (simp_all add: userParams_setter_eq register_none)
next
  assume "distinct (map fst params)"
  then show "map_of (get_userParams (set_userParams inh f params)) n =
          (if hasattr inh f n \<and> n \<in> fst ` set params then map_of params n
           else map_of (get_userParams f) n)"
    by (cases f) (simp_all add: userParams_setter_eq register_map_of)
next
  show "get_input (set_userParams inh f params) = get_input f"
    by (cases f) (simp_all add: userParams_setter_eq)
  show "filter_apply F (set_userParams inh f params) = filter_apply F f"
    by (cases f)
       (simp_all add: userParams_setter_eq MovingMedian_apply_userParams
          Centering_apply_userParams)
next
  assume "map_of entries n = None"
  then show "setParam to_int to_flt entries f n t = Some (f, [])"
    by (simp add: setParam_def)
qed

theorem set_userParams_gate_witness:
  "set_userParams (\<lambda>n. False) (MeanCenteringF \<lparr>userParams = [], input = NoneVal\<rparr>)
      [(''width'', PyInt), (''ratio'', PyFloat)]
     = MeanCenteringF \<lparr>userParams = [], input = NoneVal\<rparr>
   \<and> map_of (get_userParams
        (set_userParams (\<lambda>n. False)
           (MovingMedianF \<lparr>userParams = [], input = NoneVal, width = 21, ratio = Fin 1,
                            cutExtrema = 10\<rparr>)
           [(''width'', PyInt), (''rato'', PyFloat)])) ''width'' = Some PyInt
   \<and> map_of (get_userParams
        (set_userParams (\<lambda>n. False)
           (MovingMedianF \<lparr>userParams = [], input = NoneVal, width = 21, ratio = Fin 1,
                            cutExtrema = 10\<rparr>)
           [(''width'', PyInt), (''rato'', PyFloat)])) ''rato'' = None
   \<and> setParam (\<lambda>s. None) (\<lambda>s. None) [(''width'', ''3'')]
        (MeanCenteringF \<lparr>userParams = [], input = NoneVal\<rparr>) ''rato'' PyFloat
       = Some (MeanCenteringF \<lparr>userParams = [], input = NoneVal\<rparr>, [])"
proof -
  let ?c = "MeanCenteringF \<lparr>userParams = [], input = NoneVal\<rparr>"
  let ?m = "MovingMedianF \<lparr>userParams = [], input = NoneVal, width = 21, ratio = Fin 1,
                            cutExtrema = 10\<rparr>"
  let ?ps = "[(''width'', PyInt), (''ratio'', PyFloat)]"
  let ?qs = "[(''width'', PyInt), (''rato'', PyFloat)]"
  have h1: "\<forall>pt\<in>set ?ps. \<not> hasattr (\<lambda>n. False) ?c (fst pt)"
    by (simp add: hasattr_Filter_def class_attrs_def)
  have h2: "distinct (map fst ?qs)" by simp
  have h3: "map_of [(''width'', ''3'')] ''rato'' = None" by simp
  from set_userParams_gate [of "\<lambda>n. False" ?c ?ps] h1
  have r1: "set_userParams (\<lambda>n. False) ?c ?ps = ?c" by blast
  from set_userParams_gate [of "\<lambda>n. False" ?m ?qs "''width''"] h2
  have "map_of (get_userParams (set_userParams (\<lambda>n. False) ?m ?qs)) ''width'' =
          (if hasattr (\<lambda>n. False) ?m ''width'' \<and> ''width'' \<in> fst ` set ?qs then map_of ?qs ''width''
           else map_of (get_userParams ?m) ''width'')" by blast
  then have r2: "map_of (get_userParams (set_userParams (\<lambda>n. False) ?m ?qs)) ''width'' = Some PyInt"
    by (simp add: hasattr_MovingMedian_def class_attrs_def)
  from set_userParams_gate [of "\<lambda>n. False" ?m ?qs "''rato''"] h2
  have "map_of (get_userParams (set_userParams (\<lambda>n. False) ?m ?qs)) ''rato'' =
          (if hasattr (\<lambda>n. False) ?m ''rato'' \<and> ''rato'' \<in> fst ` set ?qs then map_of ?qs ''rato''
           else map_of (get_userParams ?m) ''rato'')" by blast
  then have r3: "map_of (get_userParams (set_userParams (\<lambda>n. False) ?m ?qs)) ''rato'' = None"
    by (simp add: hasattr_MovingMedian_def class_attrs_def)
  from set_userParams_gate [of "\<lambda>n. False" ?c ?ps "''rato''" _ "[(''width'', ''3'')]" "\<lambda>s. None" "\<lambda>s. None" PyFloat] h3
  have r4: "setParam (\<lambda>s. None) (\<lambda>s. None) [(''width'', ''3'')] ?c ''rato'' PyFloat = Some (?c, [])"
    by blast
  from r1 r2 r3 r4 show ?thesis by blast
qed

subsection \<open>JsonParser: reading a topic\<close>

lemma get_topic_values_loop_not_numeral:
  "get_topic_values_loop to_float to_str lgs topic False vs = (Inr vs, [])
   \<or> (\<exists>e. get_topic_values_loop to_float to_str lgs topic False vs = (Inl e, []))"
proof (induction lgs)
  case Nil
  show ?case by simp
next
  case (Cons lg lgs)
  show ?case
  proof (cases "lookup_topic lg topic")
    case (Inl e)
    then show ?thesis by simp
  next
    case (Inr v)
    with Cons.IH show ?thesis by (cases v) simp_all
  qed
qed

text \<open>
  C1, evaluated on the code. After \<open>parse_line\<close> of the record with \<open>a\<close> at 1 and \<open>b\<close>
  at the string \<open>x\<close> on a fresh parser, \<open>get_topic_values\<close> for \<open>a\<close> with \<open>numeral\<close>
  true returns the float 1, and for \<open>b\<close> returns the empty list and prints one message.
  With \<open>numeral\<close> false it returns the empty list, not the string recorded for \<open>b\<close>:
  the only \<open>append\<close> stands under \<open>if numeral\<close>, so whenever the call returns with
  \<open>numeral\<close> false, on any parser and any topic, the list is empty.
\<close>

theorem get_topic_values_not_numeral:
  assumes L: \<open>loads ''{"a": 1, "b": "x"}'' = Some (JDict [(''a'', JInt 1), (''b'', JStr ''x'')])\<close>
    and F1: "to_float (JInt 1) = Some (Fin 1)"
    and F2: "to_float (JStr ''x'') = None"
  shows \<open>get_topic_values to_float to_str
            (parse_line loads \<lparr>logs = [], filename = None\<rparr> ''{"a": 1, "b": "x"}'') ''a'' True
          = (Inr [JFloat (Fin 1)], [])
       \<and> get_topic_values to_float to_str
            (parse_line loads \<lparr>logs = [], filename = None\<rparr> ''{"a": 1, "b": "x"}'') ''b'' True
          = (Inr [], [Print (to_str (JStr ''x'') @ ''cannot be safely casted to a float'')])
       \<and> get_topic_values to_float to_str
            (parse_line loads \<lparr>logs = [], filename = None\<rparr> ''{"a": 1, "b": "x"}'') ''b'' False
          = (Inr [], [])
       \<and> (\<forall>q topic vs. fst (get_topic_values to_float to_str q topic False) = Inr vs \<longrightarrow> vs = [])\<close>
proof -
  have p: \<open>parse_line loads \<lparr>logs = [], filename = None\<rparr> ''{"a": 1, "b": "x"}''
            = \<lparr>logs = [JDict [(''a'', JInt 1), (''b'', JStr ''x'')]], filename = None\<rparr>\<close>
    using L by (simp add: parse_line_def)
  have gen: "vs = []" if "fst (get_topic_values to_float to_str q topic False) = Inr vs"
    for q topic vs
    using that get_topic_values_loop_not_numeral [of to_float to_str "logs q" topic "[]"]
    by (auto simp: get_topic_values_def)
  have vals: \<open>get_topic_values to_float to_str
            \<lparr>logs = [JDict [(''a'', JInt 1), (''b'', JStr ''x'')]], filename = None\<rparr> ''a'' True
          = (Inr [JFloat (Fin 1)], [])
       \<and> get_topic_values to_float to_str
            \<lparr>logs = [JDict [(''a'', JInt 1), (''b'', JStr ''x'')]], filename = None\<rparr> ''b'' True
          = (Inr [], [Print (to_str (JStr ''x'') @ ''cannot be safely casted to a float'')])
       \<and> get_topic_values to_float to_str
            \<lparr>logs = [JDict [(''a'', JInt 1), (''b'', JStr ''x'')]], filename = None\<rparr> ''b'' False
          = (Inr [], [])\<close>
    using F1 F2 by (simp add: get_topic_values_def)
  from vals gen show ?thesis
    unfolding p by blast
qed

theorem get_topic_values_not_numeral_witness:
  \<open>get_topic_values (\<lambda>v. case v of JInt i \<Rightarrow> Some (Fin (real_of_int i)) | _ \<Rightarrow> None) (\<lambda>v. ''x'')
     (parse_line
        (\<lambda>s. if s = ''{"a": 1, "b": "x"}'' then Some (JDict [(''a'', JInt 1), (''b'', JStr ''x'')])
              else None)
        \<lparr>logs = [], filename = None\<rparr> ''{"a": 1, "b": "x"}'') ''b'' False
   = (Inr [], [])
   \<and> get_topic_values (\<lambda>v. case v of JInt i \<Rightarrow> Some (Fin (real_of_int i)) | _ \<Rightarrow> None) (\<lambda>v. ''x'')
     (parse_line
        (\<lambda>s. if s = ''{"a": 1, "b": "x"}'' then Some (JDict [(''a'', JInt 1), (''b'', JStr ''x'')])
              else None)
        \<lparr>logs = [], filename = None\<rparr> ''{"a": 1, "b": "x"}'') ''a'' True
   = (Inr [JFloat (Fin 1)], [])\<close>
proof -
  let ?fl = "\<lambda>v. case v of JInt i \<Rightarrow> Some (Fin (real_of_int i)) | _ \<Rightarrow> None"
  let ?loads = \<open>\<lambda>s. if s = ''{"a": 1, "b": "x"}'' then Some (JDict [(''a'', JInt 1), (''b'', JStr ''x'')])
              else None\<close>
  have L: \<open>?loads ''{"a": 1, "b": "x"}'' = Some (JDict [(''a'', JInt 1), (''b'', JStr ''x'')])\<close>
    by simp
  have F1: "?fl (JInt 1) = Some (Fin 1)" by simp
  have F2: "?fl (JStr ''x'') = None" by simp
  from get_topic_values_not_numeral [of ?loads ?fl "\<lambda>v. ''x''", OF L F1 F2]
  show ?thesis by blast
qed

end
